theory Spec2Isabelle
  imports Complex_Main "HOL-Library.Word" "HOL-Library.Finite_Map"
begin

section \<open>Basic types\<close>

text \<open>
  Go's \<open>float64\<close> is modelled by \<open>real\<close>: prices and money amounts are computed
  with exact arithmetic, rounding, infinities and NaN are not represented. Go's
  \<open>int64\<close> is a 64-bit word, read as two's complement with \<open>sint\<close>; \<open>+\<close> and \<open>-\<close>
  wrap around as in Go. Go's \<open>int\<close> has 64 bits as well: the period of the RSI, which
  the code adds to, is a word; the limits and counts of the engine, which the code only
  compares, are of type \<open>int\<close>. A \<open>time.Time\<close> is its Unix time in nanoseconds; a
  pointer that may be nil is an \<open>option\<close>. A Go map is a finite map; where the code ranges
  over a map, the order of the keys is a parameter of the model.
\<close>

type_synonym float64 = real
type_synonym int64 = "64 word"
type_synonym time = int

text \<open>The zero \<open>time.Time\<close>, January 1 of year 1, in nanoseconds before the Unix epoch.\<close>

definition zero_time :: time where
  "zero_time = - 62135596800000000000"

text \<open>\<open>float64(q)\<close> for an \<open>int64\<close> value \<open>q\<close>.\<close>

definition float64_of :: "int64 \<Rightarrow> float64" where
  "float64_of q = real_of_int (sint q)"

text \<open>
  Every call of \<open>time.Now()\<close> reads the wall clock. A function that reads the clock takes
  the readings as a sequence \<open>clk\<close>: \<open>clk 0\<close> is its first reading, \<open>clk 1\<close> the second.
\<close>

type_synonym clock = "nat \<Rightarrow> time"

definition later :: "nat \<Rightarrow> clock \<Rightarrow> clock" where
  "later k clk = (\<lambda>n. clk (n + k))"

subsection \<open>Formatting an integer with \<open>%d\<close>\<close>

definition digit_char :: "nat \<Rightarrow> char" where
  "digit_char d = char_of (48 + d)"

function decimal :: "nat \<Rightarrow> string" where
  "decimal n = (if n < 10 then [digit_char n] else decimal (n div 10) @ [digit_char (n mod 10)])"
  by pat_completeness auto
termination
  by (relation "measure (\<lambda>n. n)") auto

declare decimal.simps [simp del]

definition Sprintf_d :: "int \<Rightarrow> string" where
  "Sprintf_d i = (if i < 0 then CHR ''-'' # decimal (nat (- i)) else decimal (nat i))"

section \<open>pkg/trading/types.go\<close>

type_synonym OrderStatus = string

definition OrderStatusPending :: OrderStatus where "OrderStatusPending = ''pending''"
definition OrderStatusSubmitted :: OrderStatus where "OrderStatusSubmitted = ''submitted''"
definition OrderStatusAccepted :: OrderStatus where "OrderStatusAccepted = ''accepted''"
definition OrderStatusRejected :: OrderStatus where "OrderStatusRejected = ''rejected''"
definition OrderStatusFilled :: OrderStatus where "OrderStatusFilled = ''filled''"
definition OrderStatusPartial :: OrderStatus where "OrderStatusPartial = ''partial''"
definition OrderStatusCanceled :: OrderStatus where "OrderStatusCanceled = ''canceled''"
definition OrderStatusExpired :: OrderStatus where "OrderStatusExpired = ''expired''"

type_synonym OrderType = string

definition OrderTypeMarket :: OrderType where "OrderTypeMarket = ''market''"
definition OrderTypeLimit :: OrderType where "OrderTypeLimit = ''limit''"
definition OrderTypeStop :: OrderType where "OrderTypeStop = ''stop''"

type_synonym OrderSide = string

definition OrderSideBuy :: OrderSide where "OrderSideBuy = ''buy''"
definition OrderSideSell :: OrderSide where "OrderSideSell = ''sell''"

record Order =
  o_ID :: string
  o_Symbol :: string
  o_Quantity :: int64
  o_FilledQty :: int64
  o_Price :: float64
  o_StopPrice :: float64
  o_Type :: OrderType
  o_Side :: OrderSide
  o_Status :: OrderStatus
  o_CreatedAt :: time
  o_UpdatedAt :: time
  o_FilledAt :: "time option"
  o_AvgFillPrice :: float64
  o_Commission :: float64
  o_RejectReason :: string
  o_ClientOrderID :: string
  o_BrokerOrderID :: string
  o_Tags :: "string list"

text \<open>The zero value of \<open>Order\<close>: what a Go map returns for a key it does not hold.\<close>

definition zero_Order :: Order where
  "zero_Order = \<lparr> o_ID = [], o_Symbol = [], o_Quantity = 0, o_FilledQty = 0, o_Price = 0,
     o_StopPrice = 0, o_Type = [], o_Side = [], o_Status = [], o_CreatedAt = zero_time,
     o_UpdatedAt = zero_time, o_FilledAt = None, o_AvgFillPrice = 0, o_Commission = 0,
     o_RejectReason = [], o_ClientOrderID = [], o_BrokerOrderID = [], o_Tags = [] \<rparr>"

record Position =
  p_Symbol :: string
  p_Quantity :: int64
  p_EntryPrice :: float64
  p_CurrentPrice :: float64
  p_MarketValue :: float64
  p_Cost :: float64
  p_UnrealizedPnL :: float64
  p_PnLPercent :: float64
  p_OpenedAt :: time
  p_UpdatedAt :: time
  p_StopLoss :: float64
  p_TakeProfit :: float64
  p_Tags :: "string list"

record Account =
  a_ID :: string
  a_BrokerID :: string
  a_Cash :: float64
  a_BuyingPower :: float64
  a_Equity :: float64
  a_MarginUsed :: float64
  a_InitialMargin :: float64
  a_MaintenanceMargin :: float64
  a_DayTradeCount :: int
  a_LastEquity :: float64
  a_RealizedPnL :: float64
  a_UnrealizedPnL :: float64
  a_TotalPnL :: float64
  a_PnLPercent :: float64
  a_UpdatedAt :: time
  a_IsLocked :: bool
  a_IsPatternDayTrader :: bool
  a_IsDayTradingCalls :: bool
  a_IsMarginCalls :: bool
  a_MaxPositionSize :: int64
  a_MaxPositionValuePercent :: float64
  a_MaxDailyTrades :: int

record Trade =
  t_ID :: string
  t_Symbol :: string
  t_EntryOrder :: Order
  t_ExitOrder :: "Order option"
  t_EntryPrice :: float64
  t_ExitPrice :: float64
  t_Quantity :: int64
  t_RealizedPnL :: float64
  t_RealizedPnLPercent :: float64
  t_Commission :: float64
  t_OpenedAt :: time
  t_ClosedAt :: "time option"
  t_HoldTime :: float64
  t_Tags :: "string list"
  t_Notes :: string
  t_Strategy :: string

record BrokerConfig =
  b_Name :: string
  b_APIKey :: string
  b_APISecret :: string
  b_AccountID :: string
  b_IsPaperTrading :: bool
  b_BaseURL :: string

record TradingLimits =
  MaxPositions :: int
  MaxPositionSizePercent :: float64
  MaxDailyTrades :: int
  StopLossPercent :: float64
  TakeProfitPercent :: float64

section \<open>Errors\<close>

text \<open>
  One constructor for each error value the modelled code returns. \<open>ErrTradeLimitExceeded n\<close>
  is \<open>ErrTradeLimitExceeded\<close> wrapped with the configured maximum \<open>n\<close>; \<open>ErrSource msg\<close> is
  an error returned by a data source; \<open>PanicNilDeref\<close> and \<open>PanicIndex\<close> are the run-time
  panics of a nil dereference and of an index out of range, which Go does not return but
  raises; \<open>NotANumber\<close> stands for a result that holds NaN, which \<open>real\<close> does not
  represent.
\<close>

datatype error =
    ErrTradeDisabled
  | ErrInvalidSymbol
  | ErrInvalidQuantity
  | ErrInvalidPrice
  | ErrInvalidOrderType
  | ErrInvalidOrderSide
  | ErrOrderNotFound
  | ErrTradeLimitExceeded int
  | ErrCannotCancel OrderStatus
  | ErrNoPrimary
  | ErrSource string
  | ErrAllFailed error
  | ErrNoSources
  | ErrItemNotFound string
  | ErrNotEnoughData int int
  | ErrPeriodNotPositive
  | ErrNoPosition string
  | ErrSymbolRequired
  | ErrQuantityNotPositive
  | NotANumber
  | PanicNilDeref
  | PanicIndex

section \<open>pkg/datasource\<close>

record StockData =
  sd_Symbol :: string
  sd_Timestamp :: time
  sd_Open :: float64
  sd_High :: float64
  sd_Low :: float64
  sd_Close :: float64
  sd_Volume :: int64
  sd_VWAP :: float64
  sd_TransactionID :: string

record Quote =
  q_Symbol :: string
  q_Timestamp :: time
  q_AskPrice :: float64
  q_AskSize :: int64
  q_BidPrice :: float64
  q_BidSize :: int64
  q_LastPrice :: float64
  q_LastSize :: int64
  q_TransactionID :: string

text \<open>
  \<open>DataSource\<close> is an interface whose implementations talk to a remote provider. A
  source is modelled by the answers it gives while the modelled call runs: its name,
  whether it is enabled, and the results of \<open>GetStockData\<close> and \<open>GetRealTimeQuote\<close>, each an
  error or a value. The other methods of the interface are not called by the code
  modelled here.
\<close>

record DataSource =
  ds_Name :: string
  ds_IsEnabled :: bool
  ds_GetStockData :: "string \<Rightarrow> string \<Rightarrow> time \<Rightarrow> time \<Rightarrow> error + StockData list"
  ds_GetRealTimeQuote :: "string \<Rightarrow> error + Quote"

record Manager =
  dataSources :: "(string, DataSource) fmap"
  primary :: string

text \<open>
  \<open>GetPrimaryDataSource\<close> returns \<open>m.dataSources[m.primary]\<close>, which is the nil interface
  (\<open>None\<close>) when the map does not hold the primary's name.
\<close>

definition GetPrimaryDataSource :: "Manager \<Rightarrow> error + DataSource option" where
  "GetPrimaryDataSource m =
     (if primary m = [] then Inl ErrNoPrimary
      else Inr (fmlookup (dataSources m) (primary m)))"

section \<open>pkg/trading/engine.go\<close>

record BaseTradingEngine =
  enabled :: bool
  limits :: TradingLimits
  brokerConfig :: BrokerConfig
  orders :: "(string, Order) fmap"
  positions :: "(string, Position) fmap"
  account :: Account
  trades :: "Trade list"

definition IsEnabled :: "BaseTradingEngine \<Rightarrow> bool" where
  "IsEnabled e = enabled e"

definition Enable :: "BaseTradingEngine \<Rightarrow> BaseTradingEngine" where
  "Enable e = e\<lparr>enabled := True\<rparr>"

definition Disable :: "BaseTradingEngine \<Rightarrow> BaseTradingEngine" where
  "Disable e = e\<lparr>enabled := False\<rparr>"

definition SetLimits :: "BaseTradingEngine \<Rightarrow> TradingLimits \<Rightarrow> BaseTradingEngine" where
  "SetLimits e l = e\<lparr>limits := l\<rparr>"

text \<open>
  The last statement of \<open>updatePosition\<close>: a position whose quantity is positive gets its
  market value, unrealized P&L and P&L percentage and is stored.
\<close>

definition storeIfOpen :: "BaseTradingEngine \<Rightarrow> string \<Rightarrow> Position \<Rightarrow> BaseTradingEngine" where
  "storeIfOpen e symbol pos =
     (if 0 < sint (p_Quantity pos) then
        let pos1 = pos\<lparr>p_MarketValue := float64_of (p_Quantity pos) * p_CurrentPrice pos\<rparr>;
            pos2 = pos1\<lparr>p_UnrealizedPnL := p_MarketValue pos1 - p_Cost pos1\<rparr>;
            pos3 = pos2\<lparr>p_PnLPercent := (p_CurrentPrice pos2 / p_EntryPrice pos2 - 1) * 100\<rparr>
        in e\<lparr>positions := fmupd symbol pos3 (positions e)\<rparr>
      else e)"

text \<open>
  The two \<open>if\<close> statements that set stop-loss and take-profit from the entry price; the
  source has them in both branches of a buy.
\<close>

definition setStops :: "TradingLimits \<Rightarrow> Position \<Rightarrow> Position" where
  "setStops l pos =
     (let pos1 = (if StopLossPercent l > 0
                  then pos\<lparr>p_StopLoss := p_EntryPrice pos * (1 - StopLossPercent l / 100)\<rparr>
                  else pos)
      in if TakeProfitPercent l > 0
         then pos1\<lparr>p_TakeProfit := p_EntryPrice pos1 * (1 + TakeProfitPercent l / 100)\<rparr>
         else pos1)"

text \<open>
  \<open>updatePosition\<close> returns the engine as it has left it, and \<open>Some PanicNilDeref\<close> where
  it dereferences \<open>order.FilledAt\<close> and that pointer is nil. The hold time is the duration
  from open to close in hours (an hour is 3600000000000 ns).
\<close>

definition updatePosition ::
  "clock \<Rightarrow> BaseTradingEngine \<Rightarrow> Order \<Rightarrow> error option \<times> BaseTradingEngine" where
  "updatePosition clk e order =
     (if o_Status order \<noteq> OrderStatusFilled then (None, e)
      else
        let symbol = o_Symbol order in
        if o_Side order = OrderSideBuy then
          (case fmlookup (positions e) symbol of
             None \<Rightarrow>
               (case o_FilledAt order of
                  None \<Rightarrow> (Some PanicNilDeref, e)
                | Some filledAt \<Rightarrow>
                    let pos = \<lparr> p_Symbol = symbol,
                                p_Quantity = o_FilledQty order,
                                p_EntryPrice = o_AvgFillPrice order,
                                p_CurrentPrice = o_AvgFillPrice order,
                                p_MarketValue = 0,
                                p_Cost = float64_of (o_FilledQty order) * o_AvgFillPrice order,
                                p_UnrealizedPnL = 0,
                                p_PnLPercent = 0,
                                p_OpenedAt = filledAt,
                                p_UpdatedAt = clk 0,
                                p_StopLoss = 0,
                                p_TakeProfit = 0,
                                p_Tags = [] \<rparr>
                    in (None, storeIfOpen e symbol (setStops (limits e) pos)))
           | Some pos0 \<Rightarrow>
               let totalQuantity = p_Quantity pos0 + o_FilledQty order;
                   totalCost = p_Cost pos0 + float64_of (o_FilledQty order) * o_AvgFillPrice order;
                   pos = pos0\<lparr> p_Quantity := totalQuantity,
                               p_Cost := totalCost,
                               p_EntryPrice := totalCost / float64_of totalQuantity,
                               p_CurrentPrice := o_AvgFillPrice order,
                               p_UpdatedAt := clk 0 \<rparr>
               in (None, storeIfOpen e symbol (setStops (limits e) pos)))
        else
          (case fmlookup (positions e) symbol of
             None \<Rightarrow> (None, e)
           | Some pos0 \<Rightarrow>
               let pos = pos0\<lparr> p_Quantity := p_Quantity pos0 - o_FilledQty order,
                               p_CurrentPrice := o_AvgFillPrice order,
                               p_UpdatedAt := clk 0 \<rparr>;
                   realizedPnL = float64_of (o_FilledQty order)
                                   * (o_AvgFillPrice order - p_EntryPrice pos);
                   e1 = e\<lparr>account := (account e)
                          \<lparr>a_RealizedPnL := a_RealizedPnL (account e) + realizedPnL\<rparr>\<rparr>
               in
               if sint (p_Quantity pos) \<le> 0 then
                 (case o_FilledAt order of
                    None \<Rightarrow> (Some PanicNilDeref, e1)
                  | Some closedTime \<Rightarrow>
                      let holdTimeHours = real_of_int (closedTime - p_OpenedAt pos) / 3600000000000;
                          trade = \<lparr> t_ID = ''trade-'' @ Sprintf_d (clk 1),
                                    t_Symbol = symbol,
                                    t_EntryOrder = (case fmlookup (orders e1) (o_ID order) of
                                                      None \<Rightarrow> zero_Order | Some entry \<Rightarrow> entry),
                                    t_ExitOrder = Some order,
                                    t_EntryPrice = p_EntryPrice pos,
                                    t_ExitPrice = o_AvgFillPrice order,
                                    t_Quantity = o_FilledQty order,
                                    t_RealizedPnL = realizedPnL,
                                    t_RealizedPnLPercent =
                                      (o_AvgFillPrice order / p_EntryPrice pos - 1) * 100,
                                    t_Commission = o_Commission order,
                                    t_OpenedAt = p_OpenedAt pos,
                                    t_ClosedAt = Some closedTime,
                                    t_HoldTime = holdTimeHours,
                                    t_Tags = [],
                                    t_Notes = [],
                                    t_Strategy = [] \<rparr>;
                          e2 = e1\<lparr>trades := trades e1 @ [trade]\<rparr>;
                          e3 = e2\<lparr>positions := fmdrop symbol (positions e2)\<rparr>
                      in (None, storeIfOpen e3 symbol pos))
               else
                 (None, storeIfOpen (e1\<lparr>positions := fmupd symbol pos (positions e1)\<rparr>) symbol pos)))"

text \<open>
  \<open>SubmitOrder\<close> returns the error or the order, and the engine as the call leaves it.
  A nil primary data source makes the call of \<open>GetRealTimeQuote\<close> panic; a data source
  returns either an error or a quote.
\<close>

definition SubmitOrder ::
  "clock \<Rightarrow> Manager \<Rightarrow> BaseTradingEngine \<Rightarrow> string \<Rightarrow> int64 \<Rightarrow> float64 \<Rightarrow> OrderType \<Rightarrow> OrderSide
     \<Rightarrow> (error + Order) \<times> BaseTradingEngine" where
  "SubmitOrder clk dm e symbol quantity price orderType orderSide =
     (if \<not> IsEnabled e then (Inl ErrTradeDisabled, e)
      else if symbol = [] then (Inl ErrInvalidSymbol, e)
      else if sint quantity \<le> 0 then (Inl ErrInvalidQuantity, e)
      else if price < 0 \<and> orderType \<noteq> OrderTypeMarket then (Inl ErrInvalidPrice, e)
      else if orderType \<noteq> OrderTypeMarket \<and> orderType \<noteq> OrderTypeLimit
                \<and> orderType \<noteq> OrderTypeStop then (Inl ErrInvalidOrderType, e)
      else if orderSide \<noteq> OrderSideBuy \<and> orderSide \<noteq> OrderSideSell
        then (Inl ErrInvalidOrderSide, e)
      else
        let positionCount = int (fcard (fmdom (positions e))) in
        if orderSide = OrderSideBuy \<and> positionCount \<ge> MaxPositions (limits e)
        then (Inl (ErrTradeLimitExceeded (MaxPositions (limits e))), e)
        else
          let now = clk 0;
              order0 = zero_Order\<lparr> o_ID := ''order-'' @ Sprintf_d now,
                                    o_Symbol := symbol,
                                    o_Quantity := quantity,
                                    o_Price := price,
                                    o_Type := orderType,
                                    o_Side := orderSide,
                                    o_Status := OrderStatusPending,
                                    o_CreatedAt := now,
                                    o_UpdatedAt := now \<rparr>;
              order = order0\<lparr>o_Status := OrderStatusAccepted\<rparr>;
              e1 = e\<lparr>orders := fmupd (o_ID order) order (orders e)\<rparr>
          in
          if orderType = OrderTypeMarket then
            (case GetPrimaryDataSource dm of
               Inl err \<Rightarrow> (Inr order, e1)
             | Inr None \<Rightarrow> (Inl PanicNilDeref, e1)
             | Inr (Some quote) \<Rightarrow>
                 (case ds_GetRealTimeQuote quote symbol of
                    Inl err \<Rightarrow> (Inr order, e1)
                  | Inr realTimequote \<Rightarrow>
                      let fillPrice = q_LastPrice realTimequote;
                          filledTime = clk 1;
                          order' = order\<lparr> o_Status := OrderStatusFilled,
                                           o_FilledQty := quantity,
                                           o_AvgFillPrice := fillPrice,
                                           o_FilledAt := Some filledTime,
                                           o_UpdatedAt := filledTime \<rparr>
                      in
                      (case updatePosition (later 2 clk) e1 order' of
                         (Some err, e2) \<Rightarrow> (Inl err, e2)
                       | (None, e2) \<Rightarrow>
                           (Inr order', e2\<lparr>orders := fmupd (o_ID order') order' (orders e2)\<rparr>))))
          else (Inr order, e1))"

definition CancelOrder ::
  "clock \<Rightarrow> BaseTradingEngine \<Rightarrow> string \<Rightarrow> error option \<times> BaseTradingEngine" where
  "CancelOrder clk e orderID =
     (if \<not> IsEnabled e then (Some ErrTradeDisabled, e)
      else
        (case fmlookup (orders e) orderID of
           None \<Rightarrow> (Some ErrOrderNotFound, e)
         | Some order \<Rightarrow>
             if o_Status order = OrderStatusFilled \<or> o_Status order = OrderStatusCanceled
                  \<or> o_Status order = OrderStatusRejected
             then (Some (ErrCannotCancel (o_Status order)), e)
             else
               let order' = order\<lparr>o_Status := OrderStatusCanceled, o_UpdatedAt := clk 0\<rparr>
               in (None, e\<lparr>orders := fmupd orderID order' (orders e)\<rparr>)))"

definition GetOrder :: "BaseTradingEngine \<Rightarrow> string \<Rightarrow> error + Order" where
  "GetOrder e orderID =
     (case fmlookup (orders e) orderID of None \<Rightarrow> Inl ErrOrderNotFound | Some order \<Rightarrow> Inr order)"

text \<open>
  \<open>GetPositions\<close> ranges over the position map; \<open>ks\<close> is the order in which the range
  yields the keys.
\<close>

definition GetPositions :: "string list \<Rightarrow> BaseTradingEngine \<Rightarrow> Position list" where
  "GetPositions ks e = List.map_filter (fmlookup (positions e)) ks"

definition GetPosition :: "BaseTradingEngine \<Rightarrow> string \<Rightarrow> error + Position" where
  "GetPosition e symbol =
     (case fmlookup (positions e) symbol of
        None \<Rightarrow> Inl (ErrNoPosition symbol)
      | Some pos \<Rightarrow> Inr pos)"

definition ClosePosition ::
  "clock \<Rightarrow> Manager \<Rightarrow> BaseTradingEngine \<Rightarrow> string \<Rightarrow> int64 \<Rightarrow> (error + Order) \<times> BaseTradingEngine" where
  "ClosePosition clk dm e symbol quantity =
     (if \<not> IsEnabled e then (Inl ErrTradeDisabled, e)
      else
        (case fmlookup (positions e) symbol of
           None \<Rightarrow> (Inl (ErrNoPosition symbol), e)
         | Some pos \<Rightarrow>
             let quantity' = (if sint quantity \<le> 0 \<or> sint quantity > sint (p_Quantity pos)
                              then p_Quantity pos else quantity)
             in SubmitOrder clk dm e symbol quantity' 0 OrderTypeMarket OrderSideSell))"

definition zero_Account :: Account where
  "zero_Account = \<lparr> a_ID = [], a_BrokerID = [], a_Cash = 0, a_BuyingPower = 0, a_Equity = 0,
     a_MarginUsed = 0, a_InitialMargin = 0, a_MaintenanceMargin = 0, a_DayTradeCount = 0,
     a_LastEquity = 0, a_RealizedPnL = 0, a_UnrealizedPnL = 0, a_TotalPnL = 0,
     a_PnLPercent = 0, a_UpdatedAt = zero_time, a_IsLocked = False, a_IsPatternDayTrader = False,
     a_IsDayTradingCalls = False, a_IsMarginCalls = False, a_MaxPositionSize = 0,
     a_MaxPositionValuePercent = 0, a_MaxDailyTrades = 0 \<rparr>"

text \<open>
  The engine holds a pointer to the data source manager; the manager is an argument of
  the operations that use it, since its sources change independently of the engine.
\<close>

definition NewBaseTradingEngine :: "BrokerConfig \<Rightarrow> TradingLimits \<Rightarrow> BaseTradingEngine" where
  "NewBaseTradingEngine cfg l =
     \<lparr> enabled = False, limits = l, brokerConfig = cfg, orders = fmempty,
       positions = fmempty, account = zero_Account, trades = [] \<rparr>"

text \<open>
  \<open>GetAccount\<close> sums the unrealized P&L over the position map (\<open>ks\<close> is the order of the
  range) and writes the totals into the account it returns.
\<close>

definition GetAccount ::
  "clock \<Rightarrow> string list \<Rightarrow> BaseTradingEngine \<Rightarrow> Account \<times> BaseTradingEngine" where
  "GetAccount clk ks e =
     (let unrealizedPnL = foldl (\<lambda>acc pos. acc + p_UnrealizedPnL pos) 0
                            (List.map_filter (fmlookup (positions e)) ks);
          a1 = (account e)\<lparr> a_UnrealizedPnL := unrealizedPnL,
                             a_TotalPnL := a_RealizedPnL (account e) + unrealizedPnL,
                             a_UpdatedAt := clk 0 \<rparr>;
          a2 = (if a_ID a1 = [] then
                  a1\<lparr> a_ID := ''default-account'',
                       a_BrokerID := b_Name (brokerConfig e),
                       a_Cash := 100000,
                       a_BuyingPower := 100000 * 2,
                       a_Equity := 100000 + a_UnrealizedPnL a1,
                       a_UpdatedAt := clk 1,
                       a_MaxPositionSize := 1000,
                       a_MaxPositionValuePercent := MaxPositionSizePercent (limits e),
                       a_MaxDailyTrades := MaxDailyTrades (limits e) \<rparr>
                else a1)
      in (a2, e\<lparr>account := a2\<rparr>))"

subsection \<open>Histories of the engine\<close>

text \<open>
  The calls of the engine's methods that write its state, each with the clock readings
  and the data source manager (as it is during the call) that the call uses.
\<close>

datatype engine_op =
    OpEnable
  | OpDisable
  | OpSetLimits TradingLimits
  | OpSubmitOrder clock Manager string int64 float64 OrderType OrderSide
  | OpCancelOrder clock string
  | OpClosePosition clock Manager string int64
  | OpGetAccount clock "string list"

fun apply_op :: "BaseTradingEngine \<Rightarrow> engine_op \<Rightarrow> BaseTradingEngine" where
  "apply_op e OpEnable = Enable e"
| "apply_op e OpDisable = Disable e"
| "apply_op e (OpSetLimits l) = SetLimits e l"
| "apply_op e (OpSubmitOrder clk dm symbol quantity price orderType orderSide) =
     snd (SubmitOrder clk dm e symbol quantity price orderType orderSide)"
| "apply_op e (OpCancelOrder clk orderID) = snd (CancelOrder clk e orderID)"
| "apply_op e (OpClosePosition clk dm symbol quantity) =
     snd (ClosePosition clk dm e symbol quantity)"
| "apply_op e (OpGetAccount clk ks) = snd (GetAccount clk ks e)"

definition run_ops :: "BaseTradingEngine \<Rightarrow> engine_op list \<Rightarrow> BaseTradingEngine" where
  "run_ops e ops = foldl apply_op e ops"

subsection \<open>Sample values\<close>

definition paper_broker :: BrokerConfig where
  "paper_broker = \<lparr> b_Name = ''paper'', b_APIKey = [], b_APISecret = [], b_AccountID = [],
     b_IsPaperTrading = True, b_BaseURL = [] \<rparr>"

definition sample_limits :: TradingLimits where
  "sample_limits = \<lparr> MaxPositions = 10, MaxPositionSizePercent = 10, MaxDailyTrades = 100,
     StopLossPercent = 5, TakeProfitPercent = 10 \<rparr>"

definition quote_at :: "string \<Rightarrow> float64 \<Rightarrow> Quote" where
  "quote_at symbol price = \<lparr> q_Symbol = symbol, q_Timestamp = 0, q_AskPrice = price,
     q_AskSize = 0, q_BidPrice = price, q_BidSize = 0, q_LastPrice = price, q_LastSize = 0,
     q_TransactionID = [] \<rparr>"

text \<open>An enabled source that answers every quote request with the last price \<open>price\<close>.\<close>

definition steady_source :: "string \<Rightarrow> float64 \<Rightarrow> DataSource" where
  "steady_source name price = \<lparr> ds_Name = name, ds_IsEnabled = True,
     ds_GetStockData = (\<lambda>symbol timeframe from to. Inr []),
     ds_GetRealTimeQuote = (\<lambda>symbol. Inr (quote_at symbol price)) \<rparr>"

text \<open>An enabled source whose every request fails.\<close>

definition failing_source :: "string \<Rightarrow> DataSource" where
  "failing_source name = \<lparr> ds_Name = name, ds_IsEnabled = True,
     ds_GetStockData = (\<lambda>symbol timeframe from to. Inl (ErrSource ''timeout'')),
     ds_GetRealTimeQuote = (\<lambda>symbol. Inl (ErrSource ''timeout'')) \<rparr>"

definition manager_of :: "DataSource \<Rightarrow> Manager" where
  "manager_of ds = \<lparr> dataSources = fmupd (ds_Name ds) ds fmempty, primary = ds_Name ds \<rparr>"

definition clock_from :: "time \<Rightarrow> clock" where
  "clock_from t = (\<lambda>n. t + int n)"

definition enabled_engine :: BaseTradingEngine where
  "enabled_engine = Enable (NewBaseTradingEngine paper_broker sample_limits)"






text \<open>An engine that holds one order, with the given status.\<close>

definition engine_with_order :: "bool \<Rightarrow> OrderStatus \<Rightarrow> BaseTradingEngine" where
  "engine_with_order on st =
     (NewBaseTradingEngine paper_broker sample_limits)
       \<lparr> enabled := on,
         orders := fmupd ''order-1''
                     (zero_Order\<lparr> o_ID := ''order-1'', o_Symbol := ''AAPL'', o_Quantity := 100,
                                  o_Price := 150, o_Type := OrderTypeLimit,
                                  o_Side := OrderSideBuy, o_Status := st \<rparr>)
                     fmempty \<rparr>"

text \<open>A history: the engine is enabled, then 100 shares are bought at 150.\<close>

definition sample_history :: "engine_op list" where
  "sample_history =
     [OpEnable,
      OpSubmitOrder (clock_from 1000) (manager_of (steady_source ''polygon'' 150))
        ''AAPL'' 100 0 OrderTypeMarket OrderSideBuy]"

definition sample_engine :: BaseTradingEngine where
  "sample_engine = run_ops (NewBaseTradingEngine paper_broker sample_limits) sample_history"

definition oversized_sell :: "(error + Order) \<times> BaseTradingEngine" where
  "oversized_sell = SubmitOrder (clock_from 2000) (manager_of (steady_source ''polygon'' 155))
                      sample_engine ''AAPL'' 200 0 OrderTypeMarket OrderSideSell"

definition sample_position :: Position where
  "sample_position =
     \<lparr> p_Symbol = ''AAPL'', p_Quantity = 100, p_EntryPrice = 150, p_CurrentPrice = 150,
       p_MarketValue = 15000, p_Cost = 15000, p_UnrealizedPnL = 0, p_PnLPercent = 0,
       p_OpenedAt = 1001, p_UpdatedAt = 1002, p_StopLoss = 142.5, p_TakeProfit = 165,
       p_Tags = [] \<rparr>"

subsection \<open>The invariant of the position map\<close>

definition positions_invar :: "BaseTradingEngine \<Rightarrow> bool" where
  "positions_invar e =
     (\<forall>symbol pos. fmlookup (positions e) symbol = Some pos \<longrightarrow> 0 < sint (p_Quantity pos))"

section \<open>pkg/trading/watchlist.go\<close>

type_synonym WatchlistItemStatus = string

definition WatchStatusActive :: WatchlistItemStatus where "WatchStatusActive = ''active''"
definition WatchStatusTriggered :: WatchlistItemStatus where "WatchStatusTriggered = ''triggered''"
definition WatchStatusExpired :: WatchlistItemStatus where "WatchStatusExpired = ''expired''"
definition WatchStatusInvalid :: WatchlistItemStatus where "WatchStatusInvalid = ''invalid''"

record ScanResult =
  sr_Symbol :: string
  sr_Timestamp :: time
  sr_IndicatorName :: string
  sr_Condition :: string
  sr_Value :: float64
  sr_Threshold :: float64
  sr_IsBuySignal :: bool
  sr_IsSellSignal :: bool
  sr_Score :: float64

record WatchlistItem =
  w_ID :: string
  w_Symbol :: string
  w_TargetPrice :: float64
  w_StopLoss :: float64
  w_TakeProfit :: float64
  w_Quantity :: int64
  w_Status :: WatchlistItemStatus
  w_AddedAt :: time
  w_UpdatedAt :: time
  w_ExpiresAt :: "time option"
  w_TriggeredAt :: "time option"
  w_Strategy :: string
  w_ScanResults :: "ScanResult list"
  w_Notes :: string
  w_Tags :: "string list"
  w_OrderID :: string
  w_IsBuyList :: bool

text \<open>
  The watchlist holds pointers to the engine and to the data source manager; the model
  keeps the item map, and the manager is an argument of \<open>ScanWatchlist\<close>.
\<close>

record Watchlist =
  items :: "(string, WatchlistItem) fmap"

definition NewWatchlist :: Watchlist where
  "NewWatchlist = \<lparr> items = fmempty \<rparr>"

text \<open>
  \<open>AddItem\<close> reads the clock once for a generated ID, once for a zero \<open>AddedAt\<close> and
  once for \<open>UpdatedAt\<close>; \<open>k1\<close> and \<open>k2\<close> count the readings made so far.
\<close>

definition AddItem :: "clock \<Rightarrow> Watchlist \<Rightarrow> WatchlistItem \<Rightarrow> error option \<times> Watchlist" where
  "AddItem clk w item =
     (if w_Symbol item = [] then (Some ErrSymbolRequired, w)
      else if sint (w_Quantity item) \<le> 0 then (Some ErrQuantityNotPositive, w)
      else
        let k1 = (if w_ID item = [] then 1 else 0);
            item1 = (if w_ID item = []
                     then item\<lparr>w_ID := ''watch-'' @ w_Symbol item @ ''-'' @ Sprintf_d (clk 0)\<rparr>
                     else item);
            item2 = (if w_Status item1 = [] then item1\<lparr>w_Status := WatchStatusActive\<rparr>
                     else item1);
            k2 = (if w_AddedAt item2 = zero_time then k1 + 1 else k1);
            item3 = (if w_AddedAt item2 = zero_time then item2\<lparr>w_AddedAt := clk k1\<rparr>
                     else item2);
            item4 = item3\<lparr>w_UpdatedAt := clk k2\<rparr>
        in (None, w\<lparr>items := fmupd (w_ID item4) item4 (items w)\<rparr>))"

definition GetItem :: "Watchlist \<Rightarrow> string \<Rightarrow> error + WatchlistItem" where
  "GetItem w id' =
     (case fmlookup (items w) id' of None \<Rightarrow> Inl (ErrItemNotFound id') | Some item \<Rightarrow> Inr item)"

definition UpdateItem ::
  "clock \<Rightarrow> Watchlist \<Rightarrow> string \<Rightarrow> WatchlistItem \<Rightarrow> error option \<times> Watchlist" where
  "UpdateItem clk w id' updatedItem =
     (case fmlookup (items w) id' of
        None \<Rightarrow> (Some (ErrItemNotFound id'), w)
      | Some item \<Rightarrow>
          let updatedItem1 = updatedItem\<lparr>w_ID := w_ID item\<rparr>;
              updatedItem2 = updatedItem1\<lparr>w_AddedAt := w_AddedAt item\<rparr>;
              updatedItem3 = updatedItem2\<lparr>w_UpdatedAt := clk 0\<rparr>
          in (None, w\<lparr>items := fmupd id' updatedItem3 (items w)\<rparr>))"

definition RemoveItem :: "Watchlist \<Rightarrow> string \<Rightarrow> error option \<times> Watchlist" where
  "RemoveItem w id' =
     (case fmlookup (items w) id' of
        None \<Rightarrow> (Some (ErrItemNotFound id'), w)
      | Some item \<Rightarrow> (None, w\<lparr>items := fmdrop id' (items w)\<rparr>))"

text \<open>\<open>GetActiveItems\<close> ranges over the item map; \<open>ks\<close> is the order of its keys.\<close>

definition GetActiveItems :: "string list \<Rightarrow> Watchlist \<Rightarrow> WatchlistItem list" where
  "GetActiveItems ks w =
     filter (\<lambda>item. w_Status item = WatchStatusActive) (List.map_filter (fmlookup (items w)) ks)"

text \<open>
  The body of the loop of \<open>ScanWatchlist\<close> for one item, started when \<open>n\<close> readings of
  the clock have been made. The result says how the loop goes on, and after how many
  readings: \<open>Continue\<close> leaves the item as it is, \<open>Update\<close> appends the item to
  \<open>updatedItems\<close>, \<open>Trigger\<close> appends it to \<open>triggeredItems\<close> and \<open>updatedItems\<close>. The
  expiry is compared with the clock only when \<open>ExpiresAt\<close> is not nil.
\<close>

datatype scan_step =
    Continue nat
  | Update nat WatchlistItem
  | Trigger nat WatchlistItem
  | Panic

definition scan_item :: "clock \<Rightarrow> Manager \<Rightarrow> nat \<Rightarrow> WatchlistItem \<Rightarrow> scan_step" where
  "scan_item clk dm n item =
     (let expired = (case w_ExpiresAt item of None \<Rightarrow> False | Some expiry \<Rightarrow> expiry < clk n);
          n1 = (case w_ExpiresAt item of None \<Rightarrow> n | Some expiry \<Rightarrow> n + 1)
      in
      if expired then
        Update (n1 + 1) (item\<lparr>w_Status := WatchStatusExpired, w_UpdatedAt := clk n1\<rparr>)
      else
        (case GetPrimaryDataSource dm of
           Inl err \<Rightarrow> Continue n1
         | Inr None \<Rightarrow> Panic
         | Inr (Some ds) \<Rightarrow>
             (case ds_GetRealTimeQuote ds (w_Symbol item) of
                Inl err \<Rightarrow> Continue n1
              | Inr quote \<Rightarrow>
                  let lastPrice = q_LastPrice quote;
                      triggered =
                        (if w_IsBuyList item
                         then w_TargetPrice item > 0 \<and> lastPrice \<le> w_TargetPrice item
                         else (w_StopLoss item > 0 \<and> lastPrice \<le> w_StopLoss item)
                              \<or> (w_TakeProfit item > 0 \<and> lastPrice \<ge> w_TakeProfit item))
                  in
                  if triggered then
                    let now = clk n1
                    in Trigger (n1 + 1)
                         (item\<lparr>w_Status := WatchStatusTriggered,
                                w_TriggeredAt := Some now,
                                w_UpdatedAt := now\<rparr>)
                  else Continue n1)))"

fun scan_items ::
  "clock \<Rightarrow> Manager \<Rightarrow> nat \<Rightarrow> WatchlistItem list \<Rightarrow> WatchlistItem list \<Rightarrow> WatchlistItem list
     \<Rightarrow> error + (WatchlistItem list \<times> WatchlistItem list)" where
  "scan_items clk dm n [] updatedItems triggeredItems = Inr (updatedItems, triggeredItems)"
| "scan_items clk dm n (item # rest) updatedItems triggeredItems =
     (case scan_item clk dm n item of
        Continue n' \<Rightarrow> scan_items clk dm n' rest updatedItems triggeredItems
      | Update n' item' \<Rightarrow> scan_items clk dm n' rest (updatedItems @ [item']) triggeredItems
      | Trigger n' item' \<Rightarrow>
          scan_items clk dm n' rest (updatedItems @ [item']) (triggeredItems @ [item'])
      | Panic \<Rightarrow> Inl PanicNilDeref)"

text \<open>The second loop: every item of \<open>updatedItems\<close> is stored under its ID.\<close>

fun store_items ::
  "(string, WatchlistItem) fmap \<Rightarrow> WatchlistItem list \<Rightarrow> (string, WatchlistItem) fmap" where
  "store_items m [] = m"
| "store_items m (item # rest) = store_items (fmupd (w_ID item) item m) rest"

definition ScanWatchlist ::
  "clock \<Rightarrow> Manager \<Rightarrow> string list \<Rightarrow> Watchlist \<Rightarrow> (error + WatchlistItem list) \<times> Watchlist" where
  "ScanWatchlist clk dm ks w =
     (let activeItems = GetActiveItems ks w
      in case scan_items clk dm 0 activeItems [] [] of
           Inl err \<Rightarrow> (Inl err, w)
         | Inr (updatedItems, triggeredItems) \<Rightarrow>
             (Inr triggeredItems, w\<lparr>items := store_items (items w) updatedItems\<rparr>))"

text \<open>
  In a watchlist built by \<open>AddItem\<close>, \<open>UpdateItem\<close>, \<open>RemoveItem\<close> and \<open>ScanWatchlist\<close> every
  item is stored under its own ID.
\<close>

definition items_keyed :: "Watchlist \<Rightarrow> bool" where
  "items_keyed w = (\<forall>id' item. fmlookup (items w) id' = Some item \<longrightarrow> w_ID item = id')"

text \<open>
  Two relations between a step of the loop and the lists that the loop builds:
  \<open>step_emits\<close> says that what the step appends is in the lists, \<open>step_yields\<close> that an
  item of \<open>updatedItems\<close> can come from the step.
\<close>

definition step_emits :: "scan_step \<Rightarrow> WatchlistItem list \<Rightarrow> WatchlistItem list \<Rightarrow> bool" where
  "step_emits s updatedItems triggeredItems =
     (case s of
        Continue m \<Rightarrow> True
      | Update m item' \<Rightarrow> item' \<in> set updatedItems
      | Trigger m item' \<Rightarrow> item' \<in> set updatedItems \<and> item' \<in> set triggeredItems
      | Panic \<Rightarrow> False)"

definition step_yields :: "scan_step \<Rightarrow> WatchlistItem \<Rightarrow> WatchlistItem list \<Rightarrow> bool" where
  "step_yields s item' triggeredItems =
     (case s of
        Continue m \<Rightarrow> False
      | Update m y \<Rightarrow> y = item'
      | Trigger m y \<Rightarrow> y = item' \<and> item' \<in> set triggeredItems
      | Panic \<Rightarrow> False)"

subsection \<open>Sample items\<close>

definition zero_WatchlistItem :: WatchlistItem where
  "zero_WatchlistItem = \<lparr> w_ID = [], w_Symbol = [], w_TargetPrice = 0, w_StopLoss = 0,
     w_TakeProfit = 0, w_Quantity = 0, w_Status = [], w_AddedAt = zero_time,
     w_UpdatedAt = zero_time, w_ExpiresAt = None, w_TriggeredAt = None, w_Strategy = [],
     w_ScanResults = [], w_Notes = [], w_Tags = [], w_OrderID = [], w_IsBuyList = False \<rparr>"

text \<open>A buy-list item with target price 100.00 and one with an expiry in the past.\<close>

definition buy_item :: WatchlistItem where
  "buy_item = zero_WatchlistItem\<lparr> w_ID := ''w1'', w_Symbol := ''AAPL'', w_TargetPrice := 100,
     w_Quantity := 10, w_Status := WatchStatusActive, w_AddedAt := 500, w_UpdatedAt := 500,
     w_IsBuyList := True \<rparr>"

definition stale_item :: WatchlistItem where
  "stale_item = buy_item\<lparr> w_ID := ''w2'', w_ExpiresAt := Some 900 \<rparr>"

definition sell_item :: WatchlistItem where
  "sell_item = zero_WatchlistItem\<lparr> w_ID := ''w3'', w_Symbol := ''AAPL'', w_StopLoss := 90,
     w_TakeProfit := 120, w_Quantity := 10, w_Status := WatchStatusActive, w_AddedAt := 500,
     w_UpdatedAt := 500, w_IsBuyList := False \<rparr>"

definition sample_watchlist :: Watchlist where
  "sample_watchlist =
     \<lparr> items = fmupd ''w1'' buy_item (fmupd ''w2'' stale_item (fmupd ''w3'' sell_item fmempty)) \<rparr>"

text \<open>Two passes over the sample watchlist, with the last price at 100.00 and at 100.01.\<close>

definition scan_at_100 :: "(error + WatchlistItem list) \<times> Watchlist" where
  "scan_at_100 = ScanWatchlist (clock_from 1000) (manager_of (steady_source ''polygon'' 100))
                   [''w1'', ''w2'', ''w3''] sample_watchlist"

definition scan_above_100 :: "(error + WatchlistItem list) \<times> Watchlist" where
  "scan_above_100 = ScanWatchlist (clock_from 1000) (manager_of (steady_source ''polygon'' 100.01))
                      [''w1'', ''w2'', ''w3''] sample_watchlist"

section \<open>pkg/datasource/manager.go: \<open>GetStockData\<close>\<close>

text \<open>
  The loop over the other data sources. \<open>ks\<close> is what remains of the range over the
  copy of the source map, \<open>lastErr\<close> the error of the last source that failed
  (\<open>None\<close> for nil). The primary source and disabled sources are passed over.
\<close>

fun try_others ::
  "(string, DataSource) fmap \<Rightarrow> string \<Rightarrow> string \<Rightarrow> string \<Rightarrow> time \<Rightarrow> time \<Rightarrow> string list
     \<Rightarrow> error option \<Rightarrow> error + StockData list" where
  "try_others dss prim symbol timeframe from to [] lastErr =
     (case lastErr of
        Some err \<Rightarrow> Inl (ErrAllFailed err)
      | None \<Rightarrow> Inl ErrNoSources)"
| "try_others dss prim symbol timeframe from to (name # rest) lastErr =
     (case fmlookup dss name of
        None \<Rightarrow> try_others dss prim symbol timeframe from to rest lastErr
      | Some ds \<Rightarrow>
          if name = prim \<or> \<not> ds_IsEnabled ds
          then try_others dss prim symbol timeframe from to rest lastErr
          else
            (case ds_GetStockData ds symbol timeframe from to of
               Inr data \<Rightarrow> Inr data
             | Inl err \<Rightarrow> try_others dss prim symbol timeframe from to rest (Some err)))"

text \<open>
  \<open>GetStockData\<close> of the manager: the primary source first, when the map holds it and it
  is enabled; its error is printed and not kept. \<open>ks\<close> is the order of the range over
  the sources.
\<close>

definition GetStockData ::
  "string list \<Rightarrow> Manager \<Rightarrow> string \<Rightarrow> string \<Rightarrow> time \<Rightarrow> time \<Rightarrow> error + StockData list" where
  "GetStockData ks m symbol timeframe from to =
     (let prim = primary m;
          dss = dataSources m;
          fromPrimary =
            (case fmlookup dss prim of
               None \<Rightarrow> None
             | Some primaryDS \<Rightarrow>
                 if ds_IsEnabled primaryDS then
                   (case ds_GetStockData primaryDS symbol timeframe from to of
                      Inr data \<Rightarrow> Some data
                    | Inl err \<Rightarrow> None)
                 else None)
      in case fromPrimary of
           Some data \<Rightarrow> Inr data
         | None \<Rightarrow> try_others dss prim symbol timeframe from to ks None)"

text \<open>
  For the statement of the failover: the enabled sources other than the primary, in the
  order of the range, and the outcome of a list of fetch results tried in order.
\<close>

definition fallback_sources :: "string list \<Rightarrow> Manager \<Rightarrow> DataSource list" where
  "fallback_sources ks m =
     filter ds_IsEnabled
       (List.map_filter (fmlookup (dataSources m)) (filter (\<lambda>name. name \<noteq> primary m) ks))"

fun first_success :: "(error + StockData list) list \<Rightarrow> error option \<Rightarrow> error + StockData list" where
  "first_success [] lastErr =
     (case lastErr of Some err \<Rightarrow> Inl (ErrAllFailed err) | None \<Rightarrow> Inl ErrNoSources)"
| "first_success (Inr data # rest) lastErr = Inr data"
| "first_success (Inl err # rest) lastErr = first_success rest (Some err)"

subsection \<open>Sample sources\<close>

definition sample_bar :: StockData where
  "sample_bar = \<lparr> sd_Symbol = ''AAPL'', sd_Timestamp = 0, sd_Open = 150, sd_High = 152,
     sd_Low = 149, sd_Close = 151, sd_Volume = 1000, sd_VWAP = 150.5, sd_TransactionID = [] \<rparr>"

definition backup_source :: DataSource where
  "backup_source = \<lparr> ds_Name = ''backup'', ds_IsEnabled = True,
     ds_GetStockData = (\<lambda>symbol timeframe from to. Inr [sample_bar]),
     ds_GetRealTimeQuote = (\<lambda>symbol. Inr (quote_at symbol 151)) \<rparr>"

text \<open>Two sources: the primary one always fails, the second one always answers.\<close>

definition two_source_manager :: Manager where
  "two_source_manager =
     \<lparr> dataSources = fmupd ''backup'' backup_source
                       (fmupd ''polygon'' (failing_source ''polygon'') fmempty),
       primary = ''polygon'' \<rparr>"

section \<open>pkg/indicators: RSI\<close>

text \<open>
  A parameter map holds values of any type; the model has the four types that the
  accessors of \<open>IndicatorParams\<close> look for. Converting a \<open>float64\<close> to an integer
  truncates towards zero.
\<close>

datatype param_value = PInt int64 | PFloat float64 | PString string | PBool bool

type_synonym IndicatorParams = "(string, param_value) fmap"

definition GetInt :: "IndicatorParams \<Rightarrow> string \<Rightarrow> int64 \<Rightarrow> int64" where
  "GetInt params key defaultValue =
     (case fmlookup params key of
        Some (PInt intVal) \<Rightarrow> intVal
      | Some (PFloat floatVal) \<Rightarrow>
          word_of_int (if floatVal < 0 then \<lceil>floatVal\<rceil> else \<lfloor>floatVal\<rfloor>)
      | _ \<Rightarrow> defaultValue)"

definition IndicatorTypeRSI :: string where
  "IndicatorTypeRSI = ''RSI''"

record IndicatorResult =
  ir_Name :: string
  ir_Values :: "(string, float64 list) fmap"
  ir_Dates :: "string list"

record RSI =
  period :: int64

definition NewRSI :: "IndicatorParams \<Rightarrow> error + RSI" where
  "NewRSI params =
     (let period = GetInt params ''period'' 14
      in if sint period \<le> 0 then Inl ErrPeriodNotPositive else Inr \<lparr> period = period \<rparr>)"

text \<open>The price changes: \<open>changes[i] = prices[i+1] - prices[i]\<close>.\<close>

fun changes_of :: "float64 list \<Rightarrow> float64 list" where
  "changes_of (a # b # rest) = (b - a) # changes_of (b # rest)"
| "changes_of [a] = []"
| "changes_of [] = []"

text \<open>The loop that sums the gains and the losses of the first \<open>period\<close> changes.\<close>

fun sum_changes :: "float64 list \<Rightarrow> float64 \<Rightarrow> float64 \<Rightarrow> float64 \<times> float64" where
  "sum_changes [] sumGain sumLoss = (sumGain, sumLoss)"
| "sum_changes (change # rest) sumGain sumLoss =
     (if change > 0 then sum_changes rest (sumGain + change) sumLoss
      else sum_changes rest sumGain (sumLoss - change))"

text \<open>The value written for an average gain and an average loss.\<close>

definition rsi_of :: "float64 \<Rightarrow> float64 \<Rightarrow> float64" where
  "rsi_of avgGain avgLoss =
     (if avgLoss = 0 then 100
      else let rs = avgGain / avgLoss in 100 - (100 / (1 + rs)))"

text \<open>
  The loop over the remaining indices: \<open>i\<close> is the index written, the list holds
  \<open>changes[i-1]\<close> and the changes after it.
\<close>

fun smooth_loop ::
  "nat \<Rightarrow> nat \<Rightarrow> float64 list \<Rightarrow> float64 \<Rightarrow> float64 \<Rightarrow> float64 list \<Rightarrow> float64 list" where
  "smooth_loop p i [] avgGain avgLoss rsiValues = rsiValues"
| "smooth_loop p i (change # rest) avgGain avgLoss rsiValues =
     (let currentGain = (if change > 0 then change else 0);
          currentLoss = (if change > 0 then 0 else - change);
          avgGain' = (avgGain * real (p - 1) + currentGain) / real p;
          avgLoss' = (avgLoss * real (p - 1) + currentLoss) / real p
      in smooth_loop p (i + 1) rest avgGain' avgLoss' (rsiValues[i := rsi_of avgGain' avgLoss']))"

text \<open>
  \<open>Calculate\<close> of the RSI. \<open>rfc3339\<close> formats a timestamp. The first test is the one of
  the source, with \<open>r.period + 1\<close> wrapping around; a period below 0, or a length that
  passes the test only through the wrap-around, ends in an index out of range; period 0
  divides 0 by 0. The loop that sets the first \<open>period\<close> values to 0 writes into a slice
  that holds zeros already.
\<close>

definition RSI_Calculate :: "(time \<Rightarrow> string) \<Rightarrow> RSI \<Rightarrow> StockData list \<Rightarrow> error + IndicatorResult" where
  "RSI_Calculate rfc3339 r data =
     (if int (length data) < sint (period r + 1)
      then Inl (ErrNotEnoughData (sint (period r + 1)) (int (length data)))
      else if sint (period r) < 0 \<or> int (length data) < sint (period r) + 1 then Inl PanicIndex
      else if sint (period r) = 0 then Inl NotANumber
      else
        let p = nat (sint (period r));
            prices = map sd_Close data;
            dates = map (\<lambda>bar. rfc3339 (sd_Timestamp bar)) data;
            changes = changes_of prices;
            rsiValues = replicate (length prices) 0;
            (sumGain, sumLoss) = sum_changes (take p changes) 0 0;
            avgGain = sumGain / real p;
            avgLoss = sumLoss / real p;
            rsiValues1 = rsiValues[p := rsi_of avgGain avgLoss];
            rsiValues2 = smooth_loop p (p + 1) (drop p changes) avgGain avgLoss rsiValues1
        in Inr \<lparr> ir_Name = IndicatorTypeRSI,
                 ir_Values = fmupd ''rsi'' rsiValues2 fmempty,
                 ir_Dates = dates \<rparr>)"

subsection \<open>Sample bars\<close>

definition bar_at :: "float64 \<Rightarrow> StockData" where
  "bar_at c = sample_bar\<lparr>sd_Close := c\<rparr>"

definition rising_bars :: "StockData list" where
  "rising_bars = [bar_at 10, bar_at 11, bar_at 13, bar_at 14]"

definition rsi2 :: RSI where
  "rsi2 = \<lparr> period = 2 \<rparr>"

section \<open>Facts about the constants\<close>

lemmas OrderStatus_defs =
  OrderStatusPending_def OrderStatusSubmitted_def OrderStatusAccepted_def
  OrderStatusRejected_def OrderStatusFilled_def OrderStatusPartial_def
  OrderStatusCanceled_def OrderStatusExpired_def

lemmas OrderType_defs = OrderTypeMarket_def OrderTypeLimit_def OrderTypeStop_def

lemmas OrderSide_defs = OrderSideBuy_def OrderSideSell_def

section \<open>Facts about \<open>updatePosition\<close> and \<open>SubmitOrder\<close>\<close>

lemma storeIfOpen_frame [simp]:
  "enabled (storeIfOpen e s p) = enabled e"
  "limits (storeIfOpen e s p) = limits e"
  "brokerConfig (storeIfOpen e s p) = brokerConfig e"
  "orders (storeIfOpen e s p) = orders e"
  "account (storeIfOpen e s p) = account e"
  "trades (storeIfOpen e s p) = trades e"
  by (simp_all add: storeIfOpen_def Let_def)

lemma setStops_frame [simp]:
  "p_Symbol (setStops l p) = p_Symbol p"
  "p_Quantity (setStops l p) = p_Quantity p"
  "p_EntryPrice (setStops l p) = p_EntryPrice p"
  "p_CurrentPrice (setStops l p) = p_CurrentPrice p"
  "p_Cost (setStops l p) = p_Cost p"
  "p_OpenedAt (setStops l p) = p_OpenedAt p"
  by (simp_all add: setStops_def Let_def)

lemma updatePosition_error:
  "updatePosition clk e order = (Some err, e') \<Longrightarrow> err = PanicNilDeref"
  by (auto simp: updatePosition_def Let_def split: if_splits option.splits)

lemma updatePosition_no_panic:
  "o_FilledAt order = Some t \<Longrightarrow> fst (updatePosition clk e order) = None"
  by (auto simp: updatePosition_def Let_def split: if_splits option.splits)

lemma updatePosition_frame:
  "enabled (snd (updatePosition clk e order)) = enabled e"
  "limits (snd (updatePosition clk e order)) = limits e"
  "brokerConfig (snd (updatePosition clk e order)) = brokerConfig e"
  "orders (snd (updatePosition clk e order)) = orders e"
  by (auto simp: updatePosition_def Let_def split: if_splits option.splits)

lemma updatePosition_orders_irrelevant:
  "positions (snd (updatePosition clk (e\<lparr>orders := os\<rparr>) order))
     = positions (snd (updatePosition clk e order))"
  "account (snd (updatePosition clk (e\<lparr>orders := os\<rparr>) order))
     = account (snd (updatePosition clk e order))"
  by (auto simp: updatePosition_def storeIfOpen_def Let_def split: if_splits option.splits)

lemma storeIfOpen_lookup:
  "fmlookup (positions (storeIfOpen e s p)) s' =
     (if 0 < sint (p_Quantity p) \<and> s = s'
      then Some (p\<lparr> p_MarketValue := float64_of (p_Quantity p) * p_CurrentPrice p,
                    p_UnrealizedPnL := float64_of (p_Quantity p) * p_CurrentPrice p - p_Cost p,
                    p_PnLPercent := (p_CurrentPrice p / p_EntryPrice p - 1) * 100 \<rparr>)
      else fmlookup (positions e) s')"
  by (simp add: storeIfOpen_def Let_def)

lemma updatePosition_buy_new:
  assumes "o_Status order = OrderStatusFilled" "o_Side order = OrderSideBuy"
    "fmlookup (positions e) (o_Symbol order) = None" "o_FilledAt order = Some t"
    "0 < sint (o_FilledQty order)"
  shows "\<exists>pos. fmlookup (positions (snd (updatePosition clk e order))) (o_Symbol order) = Some pos
           \<and> p_Quantity pos = o_FilledQty order
           \<and> p_EntryPrice pos = o_AvgFillPrice order
           \<and> p_Cost pos = float64_of (o_FilledQty order) * o_AvgFillPrice order
           \<and> p_OpenedAt pos = t"
    and "account (snd (updatePosition clk e order)) = account e"
    and "trades (snd (updatePosition clk e order)) = trades e"
  using assms by (simp_all add: updatePosition_def Let_def storeIfOpen_lookup)

lemma updatePosition_sell_close:
  assumes "o_Status order = OrderStatusFilled" "o_Side order = OrderSideSell"
    "fmlookup (positions e) (o_Symbol order) = Some pos" "o_FilledAt order = Some t"
    "sint (p_Quantity pos - o_FilledQty order) \<le> 0"
  shows "fmlookup (positions (snd (updatePosition clk e order))) (o_Symbol order) = None"
    and "\<exists>tr. trades (snd (updatePosition clk e order)) = trades e @ [tr]
            \<and> t_Symbol tr = o_Symbol order
            \<and> t_RealizedPnL tr
                = float64_of (o_FilledQty order) * (o_AvgFillPrice order - p_EntryPrice pos)"
    and "a_RealizedPnL (account (snd (updatePosition clk e order)))
           = a_RealizedPnL (account e)
             + float64_of (o_FilledQty order) * (o_AvgFillPrice order - p_EntryPrice pos)"
  using assms
  by (simp_all add: updatePosition_def Let_def storeIfOpen_lookup storeIfOpen_def OrderSide_defs)

text \<open>What a returned order in status filled tells about the call.\<close>

lemma SubmitOrder_filled:
  assumes "SubmitOrder clk dm e symbol quantity price orderType orderSide = (Inr order, e')"
    and "o_Status order = OrderStatusFilled"
  shows "0 < sint quantity" and "o_Symbol order = symbol" and "o_FilledQty order = quantity"
    and "o_Side order = orderSide" and "\<exists>t. o_FilledAt order = Some t"
    and "orderSide = OrderSideBuy \<or> orderSide = OrderSideSell"
  using assms
  by (auto simp: SubmitOrder_def Let_def OrderStatus_defs
      split: if_splits sum.splits option.splits prod.splits)

lemma SubmitOrder_filled_state:
  assumes "SubmitOrder clk dm e symbol quantity price orderType orderSide = (Inr order, e')"
    and "o_Status order = OrderStatusFilled"
  shows "e' = (let accepted = order\<lparr> o_Status := OrderStatusAccepted, o_FilledQty := 0,
                                  o_AvgFillPrice := 0, o_FilledAt := None,
                                  o_UpdatedAt := o_CreatedAt order \<rparr>;
                  e1 = e\<lparr>orders := fmupd (o_ID order) accepted (orders e)\<rparr>;
                  e2 = snd (updatePosition (later 2 clk) e1 order)
              in e2\<lparr>orders := fmupd (o_ID order) order (orders e2)\<rparr>)"
  using assms
  by (auto simp: SubmitOrder_def Let_def OrderStatus_defs zero_Order_def
      split: if_splits sum.splits option.splits prod.splits)

lemma SubmitOrder_filled_positions:
  assumes "SubmitOrder clk dm e symbol quantity price orderType orderSide = (Inr order, e')"
    and "o_Status order = OrderStatusFilled"
  shows "positions e' = positions (snd (updatePosition (later 2 clk) e order))"
    and "account e' = account (snd (updatePosition (later 2 clk) e order))"
  by (simp_all add: SubmitOrder_filled_state[OF assms] Let_def updatePosition_orders_irrelevant)


lemma SubmitOrder_filled_effect:
  assumes "SubmitOrder clk dm e symbol quantity price orderType orderSide = (Inr order, e')"
    and "o_Status order = OrderStatusFilled"
  shows "\<exists>os. positions e' = positions (snd (updatePosition (later 2 clk) (e\<lparr>orders := os\<rparr>) order))
            \<and> account e' = account (snd (updatePosition (later 2 clk) (e\<lparr>orders := os\<rparr>) order))
            \<and> trades e' = trades (snd (updatePosition (later 2 clk) (e\<lparr>orders := os\<rparr>) order))"
  by (rule exI[of _ "fmupd (o_ID order) (order\<lparr> o_Status := OrderStatusAccepted, o_FilledQty := 0,
                                  o_AvgFillPrice := 0, o_FilledAt := None,
                                  o_UpdatedAt := o_CreatedAt order \<rparr>) (orders e)"])
     (simp add: SubmitOrder_filled_state[OF assms] Let_def)

lemmas engine_eval =
  SubmitOrder_def updatePosition_def storeIfOpen_def setStops_def Let_def
  GetPrimaryDataSource_def manager_of_def steady_source_def failing_source_def quote_at_def
  enabled_engine_def Enable_def NewBaseTradingEngine_def IsEnabled_def sample_limits_def
  OrderType_defs OrderSide_defs OrderStatus_defs zero_Order_def zero_Account_def later_def
  clock_from_def float64_of_def fcard_fempty





lemma updatePosition_panic_FilledAt:
  "updatePosition clk e order = (Some err, e') \<Longrightarrow> o_FilledAt order = None"
  by (auto simp: updatePosition_def Let_def split: if_splits option.splits)

lemmas sample_eval =
  enabled_engine_def Enable_def NewBaseTradingEngine_def IsEnabled_def SetLimits_def
  sample_limits_def OrderType_defs OrderSide_defs fcard_fempty



lemmas submit_eval =
  SubmitOrder_def updatePosition_def storeIfOpen_def setStops_def Let_def
  GetPrimaryDataSource_def manager_of_def steady_source_def quote_at_def IsEnabled_def
  OrderType_defs OrderSide_defs OrderStatus_defs zero_Order_def later_def clock_from_def
  float64_of_def sample_limits_def fcard_finsert_if fcard_fempty




text \<open>What \<open>updatePosition\<close> does to positions, account and trades, case by case.\<close>

lemma updatePosition_other_symbols:
  "s \<noteq> o_Symbol order
     \<Longrightarrow> fmlookup (positions (snd (updatePosition clk e order))) s = fmlookup (positions e) s"
  by (simp add: updatePosition_def Let_def storeIfOpen_lookup split: option.split)

lemma updatePosition_buy_frame:
  assumes "o_Side order = OrderSideBuy"
  shows "account (snd (updatePosition clk e order)) = account e"
    and "trades (snd (updatePosition clk e order)) = trades e"
  using assms by (simp_all add: updatePosition_def Let_def split: option.split)

lemma updatePosition_buy_wrapped:
  assumes "o_Status order = OrderStatusFilled" "o_Side order = OrderSideBuy"
    "fmlookup (positions e) (o_Symbol order) = Some pos"
    "\<not> 0 < sint (p_Quantity pos + o_FilledQty order)"
  shows "positions (snd (updatePosition clk e order)) = positions e"
  using assms by (simp add: updatePosition_def Let_def storeIfOpen_def)

lemma updatePosition_buy_more_price:
  assumes "o_Status order = OrderStatusFilled" "o_Side order = OrderSideBuy"
    "fmlookup (positions e) (o_Symbol order) = Some pos"
    "0 < sint (p_Quantity pos + o_FilledQty order)"
  shows "\<exists>pos'. fmlookup (positions (snd (updatePosition clk e order))) (o_Symbol order) = Some pos'
           \<and> p_Quantity pos' = p_Quantity pos + o_FilledQty order
           \<and> p_Cost pos' = p_Cost pos + float64_of (o_FilledQty order) * o_AvgFillPrice order
           \<and> p_EntryPrice pos'
               = (p_Cost pos + float64_of (o_FilledQty order) * o_AvgFillPrice order)
                   / float64_of (p_Quantity pos + o_FilledQty order)
           \<and> p_CurrentPrice pos' = o_AvgFillPrice order"
  using assms by (simp add: updatePosition_def Let_def storeIfOpen_lookup)

lemma updatePosition_buy_new_price:
  assumes "o_Status order = OrderStatusFilled" "o_Side order = OrderSideBuy"
    "fmlookup (positions e) (o_Symbol order) = None" "o_FilledAt order = Some t"
    "0 < sint (o_FilledQty order)"
  shows "\<exists>pos. fmlookup (positions (snd (updatePosition clk e order))) (o_Symbol order) = Some pos
           \<and> p_Symbol pos = o_Symbol order
           \<and> p_Quantity pos = o_FilledQty order
           \<and> p_EntryPrice pos = o_AvgFillPrice order
           \<and> p_CurrentPrice pos = o_AvgFillPrice order
           \<and> p_Cost pos = float64_of (o_FilledQty order) * o_AvgFillPrice order
           \<and> p_OpenedAt pos = t"
  using assms by (simp add: updatePosition_def Let_def storeIfOpen_lookup)

lemma updatePosition_sell_nothing:
  assumes "o_Side order = OrderSideSell" "fmlookup (positions e) (o_Symbol order) = None"
  shows "snd (updatePosition clk e order) = e"
  using assms by (simp add: updatePosition_def Let_def OrderSide_defs)

lemma updatePosition_sell_account:
  assumes "o_Status order = OrderStatusFilled" "o_Side order = OrderSideSell"
    "fmlookup (positions e) (o_Symbol order) = Some pos"
  shows "a_RealizedPnL (account (snd (updatePosition clk e order)))
           = a_RealizedPnL (account e)
             + float64_of (o_FilledQty order) * (o_AvgFillPrice order - p_EntryPrice pos)"
  using assms
  by (simp add: updatePosition_def Let_def OrderSide_defs storeIfOpen_def split: option.split)

lemma updatePosition_sell_part:
  assumes "o_Status order = OrderStatusFilled" "o_Side order = OrderSideSell"
    "fmlookup (positions e) (o_Symbol order) = Some pos"
    "0 < sint (p_Quantity pos - o_FilledQty order)"
  shows "\<exists>pos'. fmlookup (positions (snd (updatePosition clk e order))) (o_Symbol order) = Some pos'
           \<and> p_Quantity pos' = p_Quantity pos - o_FilledQty order
           \<and> p_CurrentPrice pos' = o_AvgFillPrice order
           \<and> p_EntryPrice pos' = p_EntryPrice pos"
    and "trades (snd (updatePosition clk e order)) = trades e"
  using assms
  by (simp_all add: updatePosition_def Let_def OrderSide_defs storeIfOpen_lookup)


subsection \<open>The position map holds positive quantities only\<close>

lemma NewBaseTradingEngine_invar: "positions_invar (NewBaseTradingEngine cfg l)"
  by (simp add: positions_invar_def NewBaseTradingEngine_def)

lemma positions_invar_cong:
  "positions e' = positions e \<Longrightarrow> positions_invar e' = positions_invar e"
  by (simp add: positions_invar_def)

lemma storeIfOpen_invar: "positions_invar e \<Longrightarrow> positions_invar (storeIfOpen e s p)"
  by (simp add: positions_invar_def storeIfOpen_lookup)

lemma positions_invar_upd:
  "positions_invar e \<Longrightarrow> 0 < sint (p_Quantity p)
     \<Longrightarrow> positions_invar (e\<lparr>positions := fmupd s p (positions e)\<rparr>)"
  by (simp add: positions_invar_def)

lemma positions_invar_drop:
  "positions_invar e \<Longrightarrow> positions_invar (e\<lparr>positions := fmdrop s (positions e)\<rparr>)"
  by (simp add: positions_invar_def)

lemma updatePosition_invar:
  assumes "positions_invar e"
  shows "positions_invar (snd (updatePosition clk e order))"
proof -
  have acc: "\<And>a. positions_invar (e\<lparr>account := a\<rparr>)"
    using assms by (simp add: positions_invar_def)
  have tr: "\<And>a t. positions_invar (e\<lparr>account := a, trades := t\<rparr>)"
    using assms by (simp add: positions_invar_def)
  show ?thesis
    unfolding updatePosition_def Let_def
    using assms
    by (auto split: option.splits
          intro!: storeIfOpen_invar positions_invar_upd positions_invar_drop[OF tr, simplified]
                  positions_invar_upd[OF acc, simplified] acc
          simp: not_le)
qed


lemma positions_invar_orders [simp]:
  "positions_invar (e\<lparr>orders := os\<rparr>) = positions_invar e"
  by (simp add: positions_invar_def)

lemma updatePosition_invar_pair:
  "updatePosition clk e order = (x, e') \<Longrightarrow> positions_invar e \<Longrightarrow> positions_invar e'"
  using updatePosition_invar[of e clk order] by simp

lemma SubmitOrder_invar:
  assumes "positions_invar e"
  shows "positions_invar (snd (SubmitOrder clk dm e symbol quantity price orderType orderSide))"
  unfolding SubmitOrder_def Let_def
  using assms
  apply (simp split: sum.split option.split prod.split)
  apply (intro conjI impI allI)
  apply (erule updatePosition_invar_pair, simp)+
  done



lemma CancelOrder_positions: "positions (snd (CancelOrder clk e orderID)) = positions e"
  by (simp add: CancelOrder_def Let_def split: option.split)

lemma GetAccount_positions: "positions (snd (GetAccount clk ks e)) = positions e"
  by (simp add: GetAccount_def Let_def)

lemma ClosePosition_invar:
  "positions_invar e \<Longrightarrow> positions_invar (snd (ClosePosition clk dm e symbol quantity))"
  unfolding ClosePosition_def Let_def
  by (simp add: SubmitOrder_invar split: option.split)


lemma apply_op_invar:
  assumes "positions_invar e"
  shows "positions_invar (apply_op e op)"
proof (cases op)
  case OpEnable
  then show ?thesis using assms by (simp add: Enable_def positions_invar_def)
next
  case OpDisable
  then show ?thesis using assms by (simp add: Disable_def positions_invar_def)
next
  case (OpSetLimits l)
  then show ?thesis using assms by (simp add: SetLimits_def positions_invar_def)
next
  case (OpSubmitOrder clk dm symbol quantity price orderType orderSide)
  then show ?thesis using SubmitOrder_invar[OF assms] by simp
next
  case (OpCancelOrder clk orderID)
  then show ?thesis
    using assms positions_invar_cong[OF CancelOrder_positions] by simp
next
  case (OpClosePosition clk dm symbol quantity)
  then show ?thesis using ClosePosition_invar[OF assms] by simp
next
  case (OpGetAccount clk ks)
  then show ?thesis
    using assms positions_invar_cong[OF GetAccount_positions] by simp
qed

lemma run_ops_invar: "positions_invar e \<Longrightarrow> positions_invar (run_ops e ops)"
  unfolding run_ops_def by (induction ops arbitrary: e) (simp_all add: apply_op_invar)

lemma sint_sub_no_overflow:
  fixes a b :: int64
  assumes "0 < sint a" "0 < sint b"
  shows "sint (a - b) = sint a - sint b"
proof -
  have "sint a < 2 ^ 63" "sint b < 2 ^ 63"
    using sint_lt[of a] sint_lt[of b] by simp_all
  with assms show ?thesis
    by (simp add: sint_word_ariths signed_take_bit_int_eq_self)
qed


lemma sample_engine_state:
  "enabled sample_engine" "limits sample_engine = sample_limits"
  "positions sample_engine = fmupd ''AAPL'' sample_position fmempty"
  by (simp_all add: sample_engine_def run_ops_def sample_history_def sample_position_def engine_eval)

lemma oversized_sell_result:
  "fst oversized_sell = Inr (projr (fst oversized_sell))"
  "o_Status (projr (fst oversized_sell)) = OrderStatusFilled"
  by (simp_all add: oversized_sell_def submit_eval sample_engine_state sample_position_def)

lemmas cancel_eval =
  engine_with_order_def NewBaseTradingEngine_def IsEnabled_def zero_Order_def
  OrderStatus_defs OrderType_defs OrderSide_defs

subsection \<open>The watchlist\<close>

lemmas watch_eval =
  sample_watchlist_def buy_item_def stale_item_def sell_item_def zero_WatchlistItem_def
  WatchStatusActive_def WatchStatusTriggered_def WatchStatusExpired_def

lemma scan_item_ID:
  "scan_item clk dm n x = Update m x' \<or> scan_item clk dm n x = Trigger m x' \<Longrightarrow> w_ID x' = w_ID x"
  by (auto simp: scan_item_def Let_def split: if_splits sum.splits option.splits)

lemma scan_item_expired:
  assumes "w_ExpiresAt x = Some expiry" "\<forall>n. expiry < clk n"
  shows "scan_item clk dm n x
           = Update (n + 2) (x\<lparr>w_Status := WatchStatusExpired, w_UpdatedAt := clk (n + 1)\<rparr>)"
  using assms by (simp add: scan_item_def Let_def)

lemma scan_item_quoted:
  assumes "\<forall>expiry. w_ExpiresAt x = Some expiry \<longrightarrow> (\<forall>n. \<not> expiry < clk n)"
    and "GetPrimaryDataSource dm = Inr (Some ds)"
    and "ds_GetRealTimeQuote ds (w_Symbol x) = Inr quote"
  shows "\<exists>n1. scan_item clk dm n x =
           (if (if w_IsBuyList x
                then w_TargetPrice x > 0 \<and> q_LastPrice quote \<le> w_TargetPrice x
                else (w_StopLoss x > 0 \<and> q_LastPrice quote \<le> w_StopLoss x)
                     \<or> (w_TakeProfit x > 0 \<and> q_LastPrice quote \<ge> w_TakeProfit x))
            then Trigger (n1 + 1) (x\<lparr>w_Status := WatchStatusTriggered,
                                     w_TriggeredAt := Some (clk n1), w_UpdatedAt := clk n1\<rparr>)
            else Continue n1)"
  using assms by (cases "w_ExpiresAt x") (simp_all add: scan_item_def Let_def)

lemma step_emits_mono:
  "step_emits s U T \<Longrightarrow> set U \<subseteq> set U' \<Longrightarrow> set T \<subseteq> set T' \<Longrightarrow> step_emits s U' T'"
  by (auto simp: step_emits_def split: scan_step.splits)

lemma step_yields_mono:
  "step_yields s x' T \<Longrightarrow> set T \<subseteq> set T' \<Longrightarrow> step_yields s x' T'"
  by (auto simp: step_yields_def split: scan_step.splits)

lemma scan_items_acc:
  "scan_items clk dm n xs U0 T0 = Inr (U, T) \<Longrightarrow>
     \<exists>U1 T1. U = U0 @ U1 \<and> T = T0 @ T1
       \<and> (\<forall>x' \<in> set U1. \<exists>x \<in> set xs. \<exists>k. step_yields (scan_item clk dm k x) x' T1)
       \<and> (\<forall>x' \<in> set T1. \<exists>x \<in> set xs. \<exists>k m. scan_item clk dm k x = Trigger m x')
       \<and> (\<forall>x \<in> set xs. \<exists>k. step_emits (scan_item clk dm k x) U1 T1)"
proof (induction xs arbitrary: n U0 T0)
  case Nil
  then show ?case by simp
next
  case (Cons x xs)
  show ?case
  proof (cases "scan_item clk dm n x")
    case (Continue m)
    with Cons.prems have "scan_items clk dm m xs U0 T0 = Inr (U, T)" by simp
    from Cons.IH[OF this] obtain U1 T1 where
      h: "U = U0 @ U1" "T = T0 @ T1"
         "\<forall>x' \<in> set U1. \<exists>x \<in> set xs. \<exists>k. step_yields (scan_item clk dm k x) x' T1"
         "\<forall>x' \<in> set T1. \<exists>x \<in> set xs. \<exists>k m. scan_item clk dm k x = Trigger m x'"
         "\<forall>x \<in> set xs. \<exists>k. step_emits (scan_item clk dm k x) U1 T1"
      by blast
    have here: "\<exists>k. step_emits (scan_item clk dm k x) U1 T1"
      by (rule exI[of _ n]) (simp add: Continue step_emits_def)
    show ?thesis
      by (rule exI[of _ U1], rule exI[of _ T1]) (use h here in auto)
  next
    case (Update m x')
    with Cons.prems have "scan_items clk dm m xs (U0 @ [x']) T0 = Inr (U, T)" by simp
    from Cons.IH[OF this] obtain U1 T1 where
      h: "U = (U0 @ [x']) @ U1" "T = T0 @ T1"
         "\<forall>x' \<in> set U1. \<exists>x \<in> set xs. \<exists>k. step_yields (scan_item clk dm k x) x' T1"
         "\<forall>x' \<in> set T1. \<exists>x \<in> set xs. \<exists>k m. scan_item clk dm k x = Trigger m x'"
         "\<forall>x \<in> set xs. \<exists>k. step_emits (scan_item clk dm k x) U1 T1"
      by blast
    have here: "\<exists>k. step_emits (scan_item clk dm k x) (x' # U1) T1"
      by (rule exI[of _ n]) (simp add: Update step_emits_def)
    have rest: "\<forall>y \<in> set xs. \<exists>k. step_emits (scan_item clk dm k y) (x' # U1) T1"
      using h(5) by (meson step_emits_mono set_subset_Cons subset_refl)
    have "step_yields (scan_item clk dm n x) x' T1"
      by (simp add: Update step_yields_def)
    then have src: "\<forall>y' \<in> set (x' # U1). \<exists>y \<in> set (x # xs). \<exists>k.
             step_yields (scan_item clk dm k y) y' T1"
      using h(3) by (metis insert_iff list.set(2))
    show ?thesis
      by (rule exI[of _ "x' # U1"], rule exI[of _ T1]) (use h(1,2,4) here rest src in auto)
  next
    case (Trigger m x')
    with Cons.prems have "scan_items clk dm m xs (U0 @ [x']) (T0 @ [x']) = Inr (U, T)" by simp
    from Cons.IH[OF this] obtain U1 T1 where
      h: "U = (U0 @ [x']) @ U1" "T = (T0 @ [x']) @ T1"
         "\<forall>x' \<in> set U1. \<exists>x \<in> set xs. \<exists>k. step_yields (scan_item clk dm k x) x' T1"
         "\<forall>x' \<in> set T1. \<exists>x \<in> set xs. \<exists>k m. scan_item clk dm k x = Trigger m x'"
         "\<forall>x \<in> set xs. \<exists>k. step_emits (scan_item clk dm k x) U1 T1"
      by blast
    have here: "\<exists>k. step_emits (scan_item clk dm k x) (x' # U1) (x' # T1)"
      by (rule exI[of _ n]) (simp add: Trigger step_emits_def)
    have rest: "\<forall>y \<in> set xs. \<exists>k. step_emits (scan_item clk dm k y) (x' # U1) (x' # T1)"
      using h(5) by (meson step_emits_mono set_subset_Cons)
    have "step_yields (scan_item clk dm n x) x' (x' # T1)"
      by (simp add: Trigger step_yields_def)
    moreover have "\<forall>y' \<in> set U1. \<exists>y \<in> set xs. \<exists>k. step_yields (scan_item clk dm k y) y' (x' # T1)"
      using h(3) by (meson step_yields_mono set_subset_Cons)
    ultimately have src: "\<forall>y' \<in> set (x' # U1). \<exists>y \<in> set (x # xs). \<exists>k.
             step_yields (scan_item clk dm k y) y' (x' # T1)"
      by (metis insert_iff list.set(2))
    have srcT: "\<forall>y' \<in> set (x' # T1). \<exists>y \<in> set (x # xs). \<exists>k m.
             scan_item clk dm k y = Trigger m y'"
      using h(4) Trigger by (metis insert_iff list.set(2))
    show ?thesis
      by (rule exI[of _ "x' # U1"], rule exI[of _ "x' # T1"]) (use h(1,2) here rest src srcT in auto)
  next
    case Panic
    with Cons.prems show ?thesis by simp
  qed
qed

lemma store_items_other:
  "\<forall>y \<in> set U. w_ID y \<noteq> k \<Longrightarrow> fmlookup (store_items m U) k = fmlookup m k"
  by (induction U arbitrary: m) auto

lemma store_items_some:
  "\<exists>y \<in> set U. w_ID y = k \<Longrightarrow> \<exists>y \<in> set U. w_ID y = k \<and> fmlookup (store_items m U) k = Some y"
proof (induction U arbitrary: m)
  case Nil
  then show ?case by simp
next
  case (Cons y U)
  show ?case
  proof (cases "\<exists>z \<in> set U. w_ID z = k")
    case True
    from Cons.IH[OF this, of "fmupd (w_ID y) y m"] show ?thesis by auto
  next
    case False
    with Cons.prems have "w_ID y = k" by auto
    moreover from False have "fmlookup (store_items (fmupd (w_ID y) y m) U) k
                               = fmlookup (fmupd (w_ID y) y m) k"
      by (intro store_items_other) auto
    ultimately show ?thesis by auto
  qed
qed

lemma set_map_filter_eq:
  "set (List.map_filter f ks) = {y. \<exists>k \<in> set ks. f k = Some y}"
  by (induction ks) (auto split: option.splits)

lemma GetActiveItems_iff:
  "x \<in> set (GetActiveItems ks w)
     \<longleftrightarrow> (\<exists>k \<in> set ks. fmlookup (items w) k = Some x) \<and> w_Status x = WatchStatusActive"
  by (auto simp: GetActiveItems_def set_map_filter_eq)

lemma GetActiveItems_unique:
  assumes "items_keyed w" "x \<in> set (GetActiveItems ks w)" "y \<in> set (GetActiveItems ks w)"
    "w_ID x = w_ID y"
  shows "x = y"
  using assms by (auto simp: GetActiveItems_iff items_keyed_def)

text \<open>
  What a pass does to an active item whose loop body has the same kind of outcome
  whenever it is run: the outcome decides the stored item and the membership in the
  returned list.
\<close>

lemma ScanWatchlist_item:
  assumes keyed: "items_keyed w"
    and visited: "id' \<in> set ks"
    and item: "fmlookup (items w) id' = Some item" "w_Status item = WatchStatusActive"
    and scan: "ScanWatchlist clk dm ks w = (Inr triggeredItems, w')"
  shows "(\<forall>n. \<exists>m. scan_item clk dm n item = Continue m)
           \<Longrightarrow> fmlookup (items w') id' = Some item \<and> id' \<notin> w_ID ` set triggeredItems"
    and "(\<forall>n. \<exists>m x'. scan_item clk dm n item = Update m x' \<and> P x')
           \<Longrightarrow> (\<exists>x'. fmlookup (items w') id' = Some x' \<and> P x') \<and> id' \<notin> w_ID ` set triggeredItems"
    and "(\<forall>n. \<exists>m x'. scan_item clk dm n item = Trigger m x' \<and> P x')
           \<Longrightarrow> \<exists>x'. fmlookup (items w') id' = Some x' \<and> P x' \<and> x' \<in> set triggeredItems"
proof -
  let ?xs = "GetActiveItems ks w"
  from scan obtain U where run: "scan_items clk dm 0 ?xs [] [] = Inr (U, triggeredItems)"
    and w': "items w' = store_items (items w) U"
    by (auto simp: ScanWatchlist_def Let_def split: sum.splits prod.splits)
  from scan_items_acc[OF run] have
    srcU: "\<forall>x' \<in> set U. \<exists>x \<in> set ?xs. \<exists>k. step_yields (scan_item clk dm k x) x' triggeredItems"
    and srcT: "\<forall>x' \<in> set triggeredItems. \<exists>x \<in> set ?xs. \<exists>k m. scan_item clk dm k x = Trigger m x'"
    and emitted: "\<forall>x \<in> set ?xs. \<exists>k. step_emits (scan_item clk dm k x) U triggeredItems"
    by auto
  have active: "item \<in> set ?xs"
    using visited item by (auto simp: GetActiveItems_iff)
  have ident: "w_ID item = id'"
    using keyed item(1) by (simp add: items_keyed_def)
  have fromU: "\<exists>k. step_yields (scan_item clk dm k item) x' triggeredItems"
    if "x' \<in> set U" "w_ID x' = id'" for x'
  proof -
    from srcU that(1) obtain x k where x: "x \<in> set ?xs"
      "step_yields (scan_item clk dm k x) x' triggeredItems" by blast
    then have "\<exists>m. scan_item clk dm k x = Update m x' \<or> scan_item clk dm k x = Trigger m x'"
      by (auto simp: step_yields_def split: scan_step.splits)
    with scan_item_ID that(2) ident have "w_ID x = w_ID item" by metis
    with GetActiveItems_unique[OF keyed x(1) active] have "x = item" by simp
    with x(2) show ?thesis by blast
  qed
  have fromT: "\<exists>k m. scan_item clk dm k item = Trigger m x'"
    if "x' \<in> set triggeredItems" "w_ID x' = id'" for x'
  proof -
    from srcT that(1) obtain x k m where x: "x \<in> set ?xs"
      "scan_item clk dm k x = Trigger m x'" by blast
    from scan_item_ID[of clk dm k x m x'] x(2) that(2) ident have "w_ID x = w_ID item" by simp
    with GetActiveItems_unique[OF keyed x(1) active] have "x = item" by simp
    with x(2) show ?thesis by blast
  qed
  from emitted active obtain k0 where k0: "step_emits (scan_item clk dm k0 item) U triggeredItems"
    by blast
  show "fmlookup (items w') id' = Some item \<and> id' \<notin> w_ID ` set triggeredItems"
    if c: "\<forall>n. \<exists>m. scan_item clk dm n item = Continue m"
  proof -
    have "\<not> step_yields (scan_item clk dm k item) x' triggeredItems" for k x'
      using c[rule_format, of k] by (auto simp: step_yields_def)
    with fromU have "\<forall>y \<in> set U. w_ID y \<noteq> id'" by blast
    then have "fmlookup (items w') id' = fmlookup (items w) id'"
      unfolding w' by (rule store_items_other)
    moreover have "id' \<notin> w_ID ` set triggeredItems"
      using fromT c by (metis image_iff scan_step.distinct(3))
    ultimately show ?thesis using item(1) by simp
  qed
  show "(\<exists>x'. fmlookup (items w') id' = Some x' \<and> P x') \<and> id' \<notin> w_ID ` set triggeredItems"
    if u: "\<forall>n. \<exists>m x'. scan_item clk dm n item = Update m x' \<and> P x'"
  proof -
    from u obtain m0 x0 where x0: "scan_item clk dm k0 item = Update m0 x0" by blast
    with k0 have "x0 \<in> set U" by (simp add: step_emits_def)
    moreover have "w_ID x0 = id'" using scan_item_ID[of clk dm k0 item m0 x0] x0 ident by simp
    ultimately have "\<exists>y \<in> set U. w_ID y = id'" by blast
    from store_items_some[OF this, of "items w"] obtain y where
      y: "y \<in> set U" "w_ID y = id'" "fmlookup (items w') id' = Some y"
      unfolding w' by blast
    from fromU[OF y(1,2)] obtain k where k: "step_yields (scan_item clk dm k item) y triggeredItems"
      by blast
    from u obtain m1 x1 where "scan_item clk dm k item = Update m1 x1" "P x1" by blast
    with k have "P y" by (simp add: step_yields_def)
    moreover have "id' \<notin> w_ID ` set triggeredItems"
      using fromT u by (metis image_iff scan_step.distinct(7))
    ultimately show ?thesis using y(3) by blast
  qed
  show "\<exists>x'. fmlookup (items w') id' = Some x' \<and> P x' \<and> x' \<in> set triggeredItems"
    if t: "\<forall>n. \<exists>m x'. scan_item clk dm n item = Trigger m x' \<and> P x'"
  proof -
    from t obtain m0 x0 where x0: "scan_item clk dm k0 item = Trigger m0 x0" by blast
    with k0 have "x0 \<in> set U" by (simp add: step_emits_def)
    moreover have "w_ID x0 = id'" using scan_item_ID[of clk dm k0 item m0 x0] x0 ident by simp
    ultimately have "\<exists>y \<in> set U. w_ID y = id'" by blast
    from store_items_some[OF this, of "items w"] obtain y where
      y: "y \<in> set U" "w_ID y = id'" "fmlookup (items w') id' = Some y"
      unfolding w' by blast
    from fromU[OF y(1,2)] obtain k where k: "step_yields (scan_item clk dm k item) y triggeredItems"
      by blast
    from t obtain m1 x1 where "scan_item clk dm k item = Trigger m1 x1" "P x1" by blast
    with k have "P y \<and> y \<in> set triggeredItems" by (simp add: step_yields_def)
    then show ?thesis using y(3) by blast
  qed
qed


text \<open>The operations of the watchlist keep every item stored under its own ID.\<close>

lemma NewWatchlist_keyed: "items_keyed NewWatchlist"
  by (simp add: items_keyed_def NewWatchlist_def)

lemma items_keyed_upd:
  "items_keyed w \<Longrightarrow> items_keyed (w\<lparr>items := fmupd (w_ID x) x (items w)\<rparr>)"
  by (simp add: items_keyed_def)

lemma AddItem_keyed:
  assumes "items_keyed w"
  shows "items_keyed (snd (AddItem clk w item))"
proof -
  have "snd (AddItem clk w item) = w
        \<or> (\<exists>x. snd (AddItem clk w item) = w\<lparr>items := fmupd (w_ID x) x (items w)\<rparr>)"
    unfolding AddItem_def Let_def by (simp only: snd_conv split: if_split) blast
  with assms items_keyed_upd show ?thesis by metis
qed

lemma UpdateItem_keyed:
  assumes "items_keyed w"
  shows "items_keyed (snd (UpdateItem clk w id' item))"
proof (cases "fmlookup (items w) id'")
  case None
  then show ?thesis using assms by (simp add: UpdateItem_def)
next
  case (Some old)
  then have "w_ID old = id'" using assms by (simp add: items_keyed_def)
  with Some assms show ?thesis
    by (simp add: UpdateItem_def Let_def items_keyed_def)
qed

lemma RemoveItem_keyed: "items_keyed w \<Longrightarrow> items_keyed (snd (RemoveItem w id'))"
  by (cases "fmlookup (items w) id'") (simp_all add: items_keyed_def RemoveItem_def)


lemma store_items_keyed:
  "items_keyed \<lparr>items = m\<rparr> \<Longrightarrow> items_keyed \<lparr>items = store_items m U\<rparr>"
proof (induction U arbitrary: m)
  case Nil
  then show ?case by simp
next
  case (Cons y U)
  have "items_keyed \<lparr>items = fmupd (w_ID y) y m\<rparr>"
    using items_keyed_upd[OF Cons.prems, of y] by simp
  from Cons.IH[OF this] show ?case by simp
qed

lemma ScanWatchlist_keyed:
  assumes "items_keyed w"
  shows "items_keyed (snd (ScanWatchlist clk dm ks w))"
proof (cases "scan_items clk dm 0 (GetActiveItems ks w) [] []")
  case (Inl err)
  then show ?thesis using assms by (simp add: ScanWatchlist_def)
next
  case (Inr lists)
  have w: "w = \<lparr>items = items w\<rparr>" by simp
  have "snd (ScanWatchlist clk dm ks w) = \<lparr>items = store_items (items w) (fst lists)\<rparr>"
    using Inr by (simp add: ScanWatchlist_def case_prod_beta)
  moreover have "items_keyed \<lparr>items = items w\<rparr>" using assms w by metis
  ultimately show ?thesis using store_items_keyed by metis
qed

lemma sample_watchlist_keyed: "items_keyed sample_watchlist"
  by (auto simp: items_keyed_def watch_eval split: if_splits)

lemmas scan_eval =
  ScanWatchlist_def GetActiveItems_def scan_item_def Let_def GetPrimaryDataSource_def
  manager_of_def steady_source_def quote_at_def clock_from_def watch_eval

lemma scan_at_100_result: "fst scan_at_100 = Inr (projr (fst scan_at_100))"
  by (simp add: scan_at_100_def scan_eval)

lemma scan_above_100_result: "fst scan_above_100 = Inr (projr (fst scan_above_100))"
  by (simp add: scan_above_100_def scan_eval)

lemma scan_item_Trigger:
  "scan_item clk dm n x = Trigger m x'
     \<Longrightarrow> w_Status x' = WatchStatusTriggered \<and> w_TriggeredAt x' \<noteq> None"
  by (auto simp: scan_item_def Let_def split: if_splits sum.splits option.splits)

lemma scan_item_unquoted:
  assumes "\<forall>expiry. w_ExpiresAt x = Some expiry \<longrightarrow> (\<forall>n. \<not> expiry < clk n)"
    and "(\<exists>err. GetPrimaryDataSource dm = Inl err)
         \<or> (\<exists>ds err. GetPrimaryDataSource dm = Inr (Some ds)
               \<and> ds_GetRealTimeQuote ds (w_Symbol x) = Inl err)"
  shows "\<exists>m. scan_item clk dm n x = Continue m"
  using assms by (cases "w_ExpiresAt x") (auto simp: scan_item_def Let_def)

lemma ScanWatchlist_returned:
  assumes "ScanWatchlist clk dm ks w = (Inr triggeredItems, w')"
    and "x \<in> set triggeredItems"
  shows "w_Status x = WatchStatusTriggered \<and> w_TriggeredAt x \<noteq> None"
proof -
  from assms(1) obtain U where
    "scan_items clk dm 0 (GetActiveItems ks w) [] [] = Inr (U, triggeredItems)"
    by (auto simp: ScanWatchlist_def Let_def split: sum.splits prod.splits)
  from scan_items_acc[OF this] assms(2)
  obtain y k m where "scan_item clk dm k y = Trigger m x" by auto
  then show ?thesis by (rule scan_item_Trigger)
qed

lemma scan_above_100_none: "fst scan_above_100 = Inr []"
  by (simp add: scan_above_100_def scan_eval)

lemma scan_at_100_one: "map_sum id (map w_ID) (fst scan_at_100) = Inr [''w1'']"
  by (simp add: scan_at_100_def scan_eval)

subsection \<open>Failover of the data source manager\<close>

lemma try_others_first_success:
  "try_others (dataSources m) (primary m) symbol timeframe from to ks lastErr
     = first_success
         (map (\<lambda>ds. ds_GetStockData ds symbol timeframe from to) (fallback_sources ks m)) lastErr"
  by (induction ks arbitrary: lastErr)
     (auto simp: fallback_sources_def split: option.splits sum.splits)

lemma first_success_found:
  "\<forall>r \<in> set pre. isl r \<Longrightarrow> first_success (pre @ Inr data # post) lastErr = Inr data"
  by (induction pre arbitrary: lastErr) (auto simp: isl_def)

lemma first_success_none:
  "rs \<noteq> [] \<Longrightarrow> \<forall>r \<in> set rs. isl r
     \<Longrightarrow> first_success rs lastErr = Inl (ErrAllFailed (projl (last rs)))"
proof (induction rs arbitrary: lastErr)
  case Nil
  then show ?case by simp
next
  case (Cons r rs)
  then obtain err where r: "r = Inl err" by (auto simp: isl_def)
  show ?case
  proof (cases rs)
    case Nil
    with r show ?thesis by simp
  next
    case (Cons r' rs')
    with Cons.IH[of "Some err"] Cons.prems r show ?thesis by simp
  qed
qed

lemma first_success_all_failed:
  "first_success rs lastErr = Inl (ErrAllFailed err) \<Longrightarrow> \<forall>r \<in> set rs. isl r"
  by (induction rs lastErr rule: first_success.induct) (auto split: option.splits)

subsection \<open>The RSI on rising prices\<close>

lemma sint_succ_le:
  fixes x :: int64
  shows "sint (x + 1) \<le> sint x + 1"
proof -
  have "- (2 ^ 63) \<le> sint x + 1"
    using sint_ge[of x] by simp
  then show ?thesis
    by (simp add: sint_word_ariths signed_take_bit_int_less_eq_self_iff)
qed

lemma length_changes_of: "length (changes_of xs) = length xs - 1"
  by (induction xs rule: changes_of.induct) simp_all

lemma changes_of_rising:
  "sorted_wrt (<) xs \<Longrightarrow> \<forall>c \<in> set (changes_of xs). 0 < c"
  by (induction xs rule: changes_of.induct) auto

lemma sum_changes_gains:
  "\<forall>c \<in> set cs. 0 < c \<Longrightarrow> snd (sum_changes cs sumGain sumLoss) = sumLoss"
  by (induction cs arbitrary: sumGain) simp_all

lemma length_smooth_loop:
  "length (smooth_loop p i cs avgGain avgLoss rs) = length rs"
  by (induction cs arbitrary: i avgGain avgLoss rs) (simp_all add: Let_def)

lemma smooth_loop_gains:
  assumes "\<forall>c \<in> set cs. 0 < c" "i + length cs \<le> length rs"
  shows "smooth_loop p i cs avgGain 0 rs ! j
           = (if i \<le> j \<and> j < i + length cs then 100 else rs ! j)"
  using assms
proof (induction cs arbitrary: i avgGain rs)
  case Nil
  then show ?case by simp
next
  case (Cons c cs)
  have c: "0 < c" and rest: "\<forall>c \<in> set cs. 0 < c" using Cons.prems(1) by simp_all
  let ?g = "(avgGain * real (p - 1) + c) / real p"
  have step: "smooth_loop p i (c # cs) avgGain 0 rs
                = smooth_loop p (i + 1) cs ?g 0 (rs[i := 100])"
    using c by (simp add: Let_def rsi_of_def)
  have len: "(i + 1) + length cs \<le> length (rs[i := 100])"
    using Cons.prems(2) by simp
  show ?case
    unfolding step Cons.IH[OF rest len]
    using Cons.prems(2) by (auto simp: nth_list_update)
qed

lemma rsi2_made: "NewRSI (fmupd ''period'' (PInt 2) fmempty) = Inr rsi2"
  by (simp add: NewRSI_def GetInt_def rsi2_def Let_def)

lemma rsi2_values:
  "map_sum id (\<lambda>res. fmlookup (ir_Values res) ''rsi'') (RSI_Calculate Sprintf_d rsi2 rising_bars)
     = Inr (Some [0, 0, 100, 100])"
  by (simp add: RSI_Calculate_def rsi2_def rising_bars_def bar_at_def Let_def rsi_of_def
        numeral_2_eq_2 numeral_3_eq_3)

section \<open>Round trip (C1)\<close>

text \<open>
  Claim C1. For a symbol with no position, a market buy of quantity \<open>q\<close> that is filled,
  followed by a market sell of the same quantity that is filled, leaves no position for
  the symbol, appends exactly one trade to the trade list, whose realized P&L is
  \<open>q * (sell fill price - buy fill price)\<close>, and adds that amount to the account's
  realized P&L.
\<close>

theorem round_trip:
  assumes fresh: "fmlookup (positions e) symbol = None"
    and buy: "SubmitOrder clk1 dm1 e symbol q price1 OrderTypeMarket OrderSideBuy = (Inr buy, e1)"
    and buy_filled: "o_Status buy = OrderStatusFilled"
    and sell: "SubmitOrder clk2 dm2 e1 symbol q price2 OrderTypeMarket OrderSideSell = (Inr sell, e2)"
    and sell_filled: "o_Status sell = OrderStatusFilled"
  shows "fmlookup (positions e2) symbol = None
         \<and> (\<exists>tr. trades e2 = trades e @ [tr]
               \<and> t_RealizedPnL tr = float64_of q * (o_AvgFillPrice sell - o_AvgFillPrice buy))
         \<and> a_RealizedPnL (account e2)
             = a_RealizedPnL (account e) + float64_of q * (o_AvgFillPrice sell - o_AvgFillPrice buy)"
proof -
  note b = SubmitOrder_filled[OF buy buy_filled]
  note s = SubmitOrder_filled[OF sell sell_filled]
  from SubmitOrder_filled_effect[OF buy buy_filled] obtain os1 where
    e1: "positions e1 = positions (snd (updatePosition (later 2 clk1) (e\<lparr>orders := os1\<rparr>) buy))"
        "account e1 = account (snd (updatePosition (later 2 clk1) (e\<lparr>orders := os1\<rparr>) buy))"
        "trades e1 = trades (snd (updatePosition (later 2 clk1) (e\<lparr>orders := os1\<rparr>) buy))"
    by blast
  from b(5) obtain tb where tb: "o_FilledAt buy = Some tb" by blast
  have fresh': "fmlookup (positions (e\<lparr>orders := os1\<rparr>)) (o_Symbol buy) = None"
    using fresh b(2) by simp
  have qpos: "0 < sint (o_FilledQty buy)" using b(1,3) by simp
  from updatePosition_buy_new[OF buy_filled b(4) fresh' tb qpos, of "later 2 clk1"]
  obtain pos where pos: "fmlookup (positions e1) symbol = Some pos" "p_Quantity pos = q"
      "p_EntryPrice pos = o_AvgFillPrice buy"
    and acc1: "account e1 = account e" and tr1: "trades e1 = trades e"
    using e1 b(2,3) by auto
  from SubmitOrder_filled_effect[OF sell sell_filled] obtain os2 where
    e2: "positions e2 = positions (snd (updatePosition (later 2 clk2) (e1\<lparr>orders := os2\<rparr>) sell))"
        "account e2 = account (snd (updatePosition (later 2 clk2) (e1\<lparr>orders := os2\<rparr>) sell))"
        "trades e2 = trades (snd (updatePosition (later 2 clk2) (e1\<lparr>orders := os2\<rparr>) sell))"
    by blast
  from s(5) obtain ts where ts: "o_FilledAt sell = Some ts" by blast
  have held: "fmlookup (positions (e1\<lparr>orders := os2\<rparr>)) (o_Symbol sell) = Some pos"
    using pos(1) s(2) by simp
  have zero: "sint (p_Quantity pos - o_FilledQty sell) \<le> 0"
    using pos(2) s(3) by simp
  note c = updatePosition_sell_close[OF sell_filled s(4) held ts zero, of "later 2 clk2"]
  show ?thesis
    using c e2 s(2,3) pos(3) acc1 tr1 by auto
qed

theorem round_trip_witness:
  "(let (r1, e1) = SubmitOrder (clock_from 1000) (manager_of (steady_source ''polygon'' 150))
                      enabled_engine ''AAPL'' 100 0 OrderTypeMarket OrderSideBuy;
        (r2, e2) = SubmitOrder (clock_from 2000) (manager_of (steady_source ''polygon'' 155))
                      e1 ''AAPL'' 100 0 OrderTypeMarket OrderSideSell
    in fmlookup (positions e2) ''AAPL'' = None
       \<and> map t_RealizedPnL (trades e2) = [500]
       \<and> a_RealizedPnL (account e2) = 500)"
proof -
  define B where "B = SubmitOrder (clock_from 1000) (manager_of (steady_source ''polygon'' 150))
              enabled_engine ''AAPL'' 100 0 OrderTypeMarket OrderSideBuy"
  define e1 where "e1 = snd B"
  define S where "S = SubmitOrder (clock_from 2000) (manager_of (steady_source ''polygon'' 155))
              e1 ''AAPL'' 100 0 OrderTypeMarket OrderSideSell"
  have b: "fst B = Inr (projr (fst B))" "o_Status (projr (fst B)) = OrderStatusFilled"
     "o_AvgFillPrice (projr (fst B)) = 150"
    by (simp_all add: B_def engine_eval)
  have e1: "enabled e1" "positions e1 = fmupd ''AAPL''
              \<lparr>p_Symbol = ''AAPL'', p_Quantity = 100, p_EntryPrice = 150,
                 p_CurrentPrice = 150, p_MarketValue = 15000, p_Cost = 15000,
                 p_UnrealizedPnL = 0, p_PnLPercent = 0, p_OpenedAt = 1001,
                 p_UpdatedAt = 1002, p_StopLoss = 285 / 2,
                 p_TakeProfit = 165, p_Tags = []\<rparr> fmempty"
    by (simp_all add: e1_def B_def engine_eval)
  have s: "fst S = Inr (projr (fst S))" "o_Status (projr (fst S)) = OrderStatusFilled"
     "o_AvgFillPrice (projr (fst S)) = 155"
    by (simp_all add: S_def SubmitOrder_def updatePosition_def storeIfOpen_def Let_def
         GetPrimaryDataSource_def manager_of_def steady_source_def quote_at_def IsEnabled_def
         OrderType_defs OrderSide_defs OrderStatus_defs zero_Order_def later_def clock_from_def e1)
  have e: "fmlookup (positions enabled_engine) ''AAPL'' = None"
      "trades enabled_engine = []" "a_RealizedPnL (account enabled_engine) = 0"
    by (simp_all add: engine_eval)
  have B: "B = (Inr (projr (fst B)), e1)" using b(1) by (cases B) (simp add: e1_def)
  have S: "S = (Inr (projr (fst S)), snd S)" using s(1) by (cases S) simp
  have "fmlookup (positions (snd S)) ''AAPL'' = None
       \<and> map t_RealizedPnL (trades (snd S)) = [500]
       \<and> a_RealizedPnL (account (snd S)) = 500"
    using round_trip[OF e(1) B[unfolded B_def] b(2)[unfolded B_def]
                     S[unfolded S_def] s(2)[unfolded S_def]]
    by (auto simp: b(2,3)[unfolded B_def] s(2,3)[unfolded S_def] e float64_of_def S_def)
  then show ?thesis
    by (simp add: case_prod_beta S_def e1_def B_def)
qed

section \<open>Order of validation in \<open>SubmitOrder\<close> (C3)\<close>

text \<open>
  Claim C3. \<open>SubmitOrder\<close> checks in this order and returns the first error that applies,
  with the engine unchanged: trading disabled; empty symbol; quantity not positive;
  negative price on an order that is not a market order; an order type other than
  market, limit and stop; a side other than buy and sell; for a buy, the number of open
  positions having reached \<open>MaxPositions\<close>. Each conjunct states one error under the
  condition that all earlier checks have passed. A sell never gets the limit error.
\<close>

theorem SubmitOrder_validation_order:
  "(\<not> IsEnabled e \<longrightarrow>
      SubmitOrder clk dm e symbol quantity price orderType orderSide = (Inl ErrTradeDisabled, e))
   \<and> (IsEnabled e \<and> symbol = [] \<longrightarrow>
      SubmitOrder clk dm e symbol quantity price orderType orderSide = (Inl ErrInvalidSymbol, e))
   \<and> (IsEnabled e \<and> symbol \<noteq> [] \<and> sint quantity \<le> 0 \<longrightarrow>
      SubmitOrder clk dm e symbol quantity price orderType orderSide = (Inl ErrInvalidQuantity, e))
   \<and> (IsEnabled e \<and> symbol \<noteq> [] \<and> 0 < sint quantity
        \<and> orderType \<noteq> OrderTypeMarket \<and> price < 0 \<longrightarrow>
      SubmitOrder clk dm e symbol quantity price orderType orderSide = (Inl ErrInvalidPrice, e))
   \<and> (IsEnabled e \<and> symbol \<noteq> [] \<and> 0 < sint quantity
        \<and> \<not> (orderType \<noteq> OrderTypeMarket \<and> price < 0)
        \<and> orderType \<notin> {OrderTypeMarket, OrderTypeLimit, OrderTypeStop} \<longrightarrow>
      SubmitOrder clk dm e symbol quantity price orderType orderSide = (Inl ErrInvalidOrderType, e))
   \<and> (IsEnabled e \<and> symbol \<noteq> [] \<and> 0 < sint quantity
        \<and> \<not> (orderType \<noteq> OrderTypeMarket \<and> price < 0)
        \<and> orderType \<in> {OrderTypeMarket, OrderTypeLimit, OrderTypeStop}
        \<and> orderSide \<notin> {OrderSideBuy, OrderSideSell} \<longrightarrow>
      SubmitOrder clk dm e symbol quantity price orderType orderSide = (Inl ErrInvalidOrderSide, e))
   \<and> (IsEnabled e \<and> symbol \<noteq> [] \<and> 0 < sint quantity
        \<and> \<not> (orderType \<noteq> OrderTypeMarket \<and> price < 0)
        \<and> orderType \<in> {OrderTypeMarket, OrderTypeLimit, OrderTypeStop}
        \<and> orderSide = OrderSideBuy
        \<and> MaxPositions (limits e) \<le> int (fcard (fmdom (positions e))) \<longrightarrow>
      SubmitOrder clk dm e symbol quantity price orderType orderSide
        = (Inl (ErrTradeLimitExceeded (MaxPositions (limits e))), e))
   \<and> (orderSide = OrderSideSell \<longrightarrow>
      (\<forall>n. fst (SubmitOrder clk dm e symbol quantity price orderType orderSide)
            \<noteq> Inl (ErrTradeLimitExceeded n)))"
  apply (intro conjI impI allI)
  apply (simp_all add: SubmitOrder_def)
  apply (auto simp: Let_def OrderSide_defs split: sum.splits option.splits prod.splits
     dest: updatePosition_error)
  done

theorem SubmitOrder_validation_order_witness:
  "SubmitOrder (clock_from 1000) (manager_of (steady_source ''polygon'' 150))
      (NewBaseTradingEngine paper_broker sample_limits) [] 0 (- 1) ''iceberg'' ''hold''
     = (Inl ErrTradeDisabled, NewBaseTradingEngine paper_broker sample_limits)
   \<and> SubmitOrder (clock_from 1000) (manager_of (steady_source ''polygon'' 150))
      enabled_engine [] 0 (- 1) ''iceberg'' ''hold''
     = (Inl ErrInvalidSymbol, enabled_engine)
   \<and> SubmitOrder (clock_from 1000) (manager_of (steady_source ''polygon'' 150))
      enabled_engine ''AAPL'' 0 (- 1) ''iceberg'' ''hold''
     = (Inl ErrInvalidQuantity, enabled_engine)
   \<and> SubmitOrder (clock_from 1000) (manager_of (steady_source ''polygon'' 150))
      enabled_engine ''AAPL'' 100 (- 1) ''iceberg'' ''hold''
     = (Inl ErrInvalidPrice, enabled_engine)
   \<and> SubmitOrder (clock_from 1000) (manager_of (steady_source ''polygon'' 150))
      enabled_engine ''AAPL'' 100 1 ''iceberg'' ''hold''
     = (Inl ErrInvalidOrderType, enabled_engine)
   \<and> SubmitOrder (clock_from 1000) (manager_of (steady_source ''polygon'' 150))
      enabled_engine ''AAPL'' 100 1 OrderTypeLimit ''hold''
     = (Inl ErrInvalidOrderSide, enabled_engine)
   \<and> SubmitOrder (clock_from 1000) (manager_of (steady_source ''polygon'' 150))
      (SetLimits enabled_engine (sample_limits\<lparr>MaxPositions := 0\<rparr>))
      ''AAPL'' 100 1 OrderTypeLimit OrderSideBuy
     = (Inl (ErrTradeLimitExceeded 0), SetLimits enabled_engine (sample_limits\<lparr>MaxPositions := 0\<rparr>))
   \<and> fst (SubmitOrder (clock_from 1000) (manager_of (steady_source ''polygon'' 150))
      (SetLimits enabled_engine (sample_limits\<lparr>MaxPositions := 0\<rparr>))
      ''AAPL'' 100 1 OrderTypeLimit OrderSideSell) \<noteq> Inl (ErrTradeLimitExceeded 0)"
proof -
  let ?clk = "clock_from 1000" and ?dm = "manager_of (steady_source ''polygon'' 150)"
  let ?full = "SetLimits enabled_engine (sample_limits\<lparr>MaxPositions := 0\<rparr>)"
  note v = SubmitOrder_validation_order[of _ ?clk ?dm]
  have 1: "SubmitOrder ?clk ?dm (NewBaseTradingEngine paper_broker sample_limits) [] 0 (- 1)
             ''iceberg'' ''hold'' = (Inl ErrTradeDisabled, NewBaseTradingEngine paper_broker sample_limits)"
    using v[of "NewBaseTradingEngine paper_broker sample_limits" "[]" 0 "- 1" "''iceberg''" "''hold''"]
    by (simp add: sample_eval)
  have 2: "SubmitOrder ?clk ?dm enabled_engine [] 0 (- 1) ''iceberg'' ''hold''
             = (Inl ErrInvalidSymbol, enabled_engine)"
    using v[of enabled_engine "[]" 0 "- 1" "''iceberg''" "''hold''"]
    by (simp add: sample_eval)
  have 3: "SubmitOrder ?clk ?dm enabled_engine ''AAPL'' 0 (- 1) ''iceberg'' ''hold''
             = (Inl ErrInvalidQuantity, enabled_engine)"
    using v[of enabled_engine "''AAPL''" 0 "- 1" "''iceberg''" "''hold''"]
    by (simp add: sample_eval)
  have 4: "SubmitOrder ?clk ?dm enabled_engine ''AAPL'' 100 (- 1) ''iceberg'' ''hold''
             = (Inl ErrInvalidPrice, enabled_engine)"
    using v[of enabled_engine "''AAPL''" 100 "- 1" "''iceberg''" "''hold''"]
    by (simp add: sample_eval)
  have 5: "SubmitOrder ?clk ?dm enabled_engine ''AAPL'' 100 1 ''iceberg'' ''hold''
             = (Inl ErrInvalidOrderType, enabled_engine)"
    using v[of enabled_engine "''AAPL''" 100 1 "''iceberg''" "''hold''"]
    by (simp add: sample_eval)
  have 6: "SubmitOrder ?clk ?dm enabled_engine ''AAPL'' 100 1 OrderTypeLimit ''hold''
             = (Inl ErrInvalidOrderSide, enabled_engine)"
    using v[of enabled_engine "''AAPL''" 100 1 OrderTypeLimit "''hold''"]
    by (simp add: sample_eval)
  have 7: "SubmitOrder ?clk ?dm ?full ''AAPL'' 100 1 OrderTypeLimit OrderSideBuy
             = (Inl (ErrTradeLimitExceeded 0), ?full)"
    using v[of ?full "''AAPL''" 100 1 OrderTypeLimit OrderSideBuy]
    by (simp add: sample_eval)
  have 8: "fst (SubmitOrder ?clk ?dm ?full ''AAPL'' 100 1 OrderTypeLimit OrderSideSell)
             \<noteq> Inl (ErrTradeLimitExceeded 0)"
    using v[of ?full "''AAPL''" 100 1 OrderTypeLimit OrderSideSell]
    by simp
  show ?thesis
    using 1 2 3 4 5 6 7 8 by blast
qed


section \<open>Market orders fill at once (C2)\<close>

text \<open>
  Claim C2. For a market order that passes the validation of \<open>SubmitOrder\<close>: when the
  primary data source is obtained and its quote for the symbol arrives, the order that
  is returned is also the order stored under its ID, it has status filled, its filled
  quantity is the requested quantity, its average fill price is the last price of the
  quote, and the update of positions and account has been made in the engine that the
  call leaves. The update is stated in full. Positions of other symbols stay. A buy
  leaves account and trades as they are; without a position it opens one with the
  requested quantity, entered at the last price; with a position it adds the quantity and
  the cost and sets the weighted average entry price (when the sum of the quantities
  wraps around, the position stays as it is). A sell without a position changes nothing;
  with a position it adds \<open>quantity * (last price - entry price)\<close> to the realized P&L of
  the account, and either removes the position and appends one trade (nothing left) or
  stores the reduced quantity. When the primary source cannot be obtained or its quote
  fails, the returned and stored order has status accepted, and positions and account
  are unchanged.
\<close>

theorem SubmitOrder_market:
  assumes "IsEnabled e" and "symbol \<noteq> []" and "0 < sint quantity"
    and "orderSide = OrderSideBuy \<or> orderSide = OrderSideSell"
    and "orderSide = OrderSideBuy \<longrightarrow> int (fcard (fmdom (positions e))) < MaxPositions (limits e)"
  shows "(\<forall>ds quote. GetPrimaryDataSource dm = Inr (Some ds)
              \<and> ds_GetRealTimeQuote ds symbol = Inr quote \<longrightarrow>
            (\<exists>order e'. SubmitOrder clk dm e symbol quantity price OrderTypeMarket orderSide
                           = (Inr order, e')
               \<and> o_Status order = OrderStatusFilled
               \<and> o_FilledQty order = quantity
               \<and> o_AvgFillPrice order = q_LastPrice quote
               \<and> GetOrder e' (o_ID order) = Inr order
               \<and> positions e' = positions (snd (updatePosition (later 2 clk) e order))
               \<and> account e' = account (snd (updatePosition (later 2 clk) e order))
               \<and> (\<forall>s. s \<noteq> symbol \<longrightarrow> fmlookup (positions e') s = fmlookup (positions e) s)
               \<and> (orderSide = OrderSideBuy \<longrightarrow>
                    account e' = account e \<and> trades e' = trades e
                    \<and> (fmlookup (positions e) symbol = None \<longrightarrow>
                         (\<exists>pos. fmlookup (positions e') symbol = Some pos
                            \<and> p_Symbol pos = symbol
                            \<and> p_Quantity pos = quantity
                            \<and> p_EntryPrice pos = q_LastPrice quote
                            \<and> p_CurrentPrice pos = q_LastPrice quote
                            \<and> p_Cost pos = float64_of quantity * q_LastPrice quote))
                    \<and> (\<forall>old. fmlookup (positions e) symbol = Some old
                              \<and> 0 < sint (p_Quantity old + quantity) \<longrightarrow>
                         (\<exists>pos. fmlookup (positions e') symbol = Some pos
                            \<and> p_Quantity pos = p_Quantity old + quantity
                            \<and> p_Cost pos = p_Cost old + float64_of quantity * q_LastPrice quote
                            \<and> p_EntryPrice pos
                                = (p_Cost old + float64_of quantity * q_LastPrice quote)
                                    / float64_of (p_Quantity old + quantity)
                            \<and> p_CurrentPrice pos = q_LastPrice quote))
                    \<and> (\<forall>old. fmlookup (positions e) symbol = Some old
                              \<and> \<not> 0 < sint (p_Quantity old + quantity) \<longrightarrow>
                         fmlookup (positions e') symbol = Some old))
               \<and> (orderSide = OrderSideSell \<longrightarrow>
                    (fmlookup (positions e) symbol = None \<longrightarrow>
                       positions e' = positions e \<and> account e' = account e
                       \<and> trades e' = trades e)
                    \<and> (\<forall>old. fmlookup (positions e) symbol = Some old \<longrightarrow>
                         a_RealizedPnL (account e')
                           = a_RealizedPnL (account e)
                             + float64_of quantity * (q_LastPrice quote - p_EntryPrice old)
                         \<and> (sint (p_Quantity old - quantity) \<le> 0 \<longrightarrow>
                              fmlookup (positions e') symbol = None
                              \<and> (\<exists>tr. trades e' = trades e @ [tr]
                                    \<and> t_Symbol tr = symbol
                                    \<and> t_RealizedPnL tr
                                        = float64_of quantity
                                            * (q_LastPrice quote - p_EntryPrice old)))
                         \<and> (0 < sint (p_Quantity old - quantity) \<longrightarrow>
                              (\<exists>pos. fmlookup (positions e') symbol = Some pos
                                 \<and> p_Quantity pos = p_Quantity old - quantity
                                 \<and> p_CurrentPrice pos = q_LastPrice quote
                                 \<and> p_EntryPrice pos = p_EntryPrice old)
                              \<and> trades e' = trades e)))))
       \<and> ((\<exists>err. GetPrimaryDataSource dm = Inl err)
            \<or> (\<exists>ds err. GetPrimaryDataSource dm = Inr (Some ds)
                  \<and> ds_GetRealTimeQuote ds symbol = Inl err) \<longrightarrow>
            (\<exists>order e'. SubmitOrder clk dm e symbol quantity price OrderTypeMarket orderSide
                           = (Inr order, e')
               \<and> o_Status order = OrderStatusAccepted
               \<and> GetOrder e' (o_ID order) = Inr order
               \<and> positions e' = positions e
               \<and> account e' = account e))"
proof (intro conjI allI impI)
  fix ds quote
  assume a: "GetPrimaryDataSource dm = Inr (Some ds) \<and> ds_GetRealTimeQuote ds symbol = Inr quote"
  let ?last = "q_LastPrice quote"
  obtain r e' where r: "SubmitOrder clk dm e symbol quantity price OrderTypeMarket orderSide = (r, e')"
    by (cases "SubmitOrder clk dm e symbol quantity price OrderTypeMarket orderSide")
  have "r = Inr (projr r) \<and> o_Status (projr r) = OrderStatusFilled
               \<and> o_FilledQty (projr r) = quantity
               \<and> o_AvgFillPrice (projr r) = q_LastPrice quote
               \<and> GetOrder e' (o_ID (projr r)) = Inr (projr r)"
    using r assms a
    by (auto simp: SubmitOrder_def Let_def GetOrder_def zero_Order_def
        split: prod.splits option.splits dest!: updatePosition_panic_FilledAt)
  then obtain order where o: "r = Inr order" and filled: "o_Status order = OrderStatusFilled"
    and qty: "o_FilledQty order = quantity" and px: "o_AvgFillPrice order = ?last"
    and stored: "GetOrder e' (o_ID order) = Inr order" by blast
  have sub: "SubmitOrder clk dm e symbol quantity price OrderTypeMarket orderSide = (Inr order, e')"
    using r o by simp
  note f = SubmitOrder_filled[OF sub filled]
  note same = SubmitOrder_filled_positions[OF sub filled]
  from SubmitOrder_filled_effect[OF sub filled] obtain os where
    eff: "positions e' = positions (snd (updatePosition (later 2 clk) (e\<lparr>orders := os\<rparr>) order))"
         "account e' = account (snd (updatePosition (later 2 clk) (e\<lparr>orders := os\<rparr>) order))"
         "trades e' = trades (snd (updatePosition (later 2 clk) (e\<lparr>orders := os\<rparr>) order))"
    by blast
  let ?e1 = "e\<lparr>orders := os\<rparr>"
  from f(5) obtain t where t: "o_FilledAt order = Some t" by blast
  have sym: "o_Symbol order = symbol" and side: "o_Side order = orderSide" by (rule f(2), rule f(4))
  have qpos: "0 < sint (o_FilledQty order)" using f(1) qty by simp
  have others: "\<forall>s. s \<noteq> symbol \<longrightarrow> fmlookup (positions e') s = fmlookup (positions e) s"
    using updatePosition_other_symbols[of _ order "later 2 clk" ?e1] sym eff(1) by simp
  have buy: "orderSide = OrderSideBuy \<longrightarrow>
                    account e' = account e \<and> trades e' = trades e
                    \<and> (fmlookup (positions e) symbol = None \<longrightarrow>
                         (\<exists>pos. fmlookup (positions e') symbol = Some pos
                            \<and> p_Symbol pos = symbol
                            \<and> p_Quantity pos = quantity
                            \<and> p_EntryPrice pos = q_LastPrice quote
                            \<and> p_CurrentPrice pos = q_LastPrice quote
                            \<and> p_Cost pos = float64_of quantity * q_LastPrice quote))
                    \<and> (\<forall>old. fmlookup (positions e) symbol = Some old
                              \<and> 0 < sint (p_Quantity old + quantity) \<longrightarrow>
                         (\<exists>pos. fmlookup (positions e') symbol = Some pos
                            \<and> p_Quantity pos = p_Quantity old + quantity
                            \<and> p_Cost pos = p_Cost old + float64_of quantity * q_LastPrice quote
                            \<and> p_EntryPrice pos
                                = (p_Cost old + float64_of quantity * q_LastPrice quote)
                                    / float64_of (p_Quantity old + quantity)
                            \<and> p_CurrentPrice pos = q_LastPrice quote))
                    \<and> (\<forall>old. fmlookup (positions e) symbol = Some old
                              \<and> \<not> 0 < sint (p_Quantity old + quantity) \<longrightarrow>
                         fmlookup (positions e') symbol = Some old)"
  proof (intro impI conjI allI)
    assume b: "orderSide = OrderSideBuy"
    then have sb: "o_Side order = OrderSideBuy" using side by simp
    show "account e' = account e" "trades e' = trades e"
      using updatePosition_buy_frame[OF sb, of "later 2 clk" ?e1] eff(2,3) by simp_all
    show "\<exists>pos. fmlookup (positions e') symbol = Some pos
                            \<and> p_Symbol pos = symbol
                            \<and> p_Quantity pos = quantity
                            \<and> p_EntryPrice pos = q_LastPrice quote
                            \<and> p_CurrentPrice pos = q_LastPrice quote
                            \<and> p_Cost pos = float64_of quantity * q_LastPrice quote"
      if "fmlookup (positions e) symbol = None"
    proof -
      have "fmlookup (positions ?e1) (o_Symbol order) = None" using that sym by simp
      from updatePosition_buy_new_price[OF filled sb this t qpos, of "later 2 clk"]
      show ?thesis using eff(1) sym qty px by auto
    qed
    show "\<exists>pos. fmlookup (positions e') symbol = Some pos
                            \<and> p_Quantity pos = p_Quantity old + quantity
                            \<and> p_Cost pos = p_Cost old + float64_of quantity * q_LastPrice quote
                            \<and> p_EntryPrice pos
                                = (p_Cost old + float64_of quantity * q_LastPrice quote)
                                    / float64_of (p_Quantity old + quantity)
                            \<and> p_CurrentPrice pos = q_LastPrice quote"
      if "fmlookup (positions e) symbol = Some old \<and> 0 < sint (p_Quantity old + quantity)" for old
    proof -
      have h: "fmlookup (positions ?e1) (o_Symbol order) = Some old"
        and g: "0 < sint (p_Quantity old + o_FilledQty order)" using that sym qty by simp_all
      from updatePosition_buy_more_price[OF filled sb h g, of "later 2 clk"]
      show ?thesis using eff(1) sym qty px by auto
    qed
    show "fmlookup (positions e') symbol = Some old"
      if "fmlookup (positions e) symbol = Some old \<and> \<not> 0 < sint (p_Quantity old + quantity)" for old
    proof -
      have h: "fmlookup (positions ?e1) (o_Symbol order) = Some old"
        and g: "\<not> 0 < sint (p_Quantity old + o_FilledQty order)" using that sym qty by simp_all
      from updatePosition_buy_wrapped[OF filled sb h g, of "later 2 clk"]
      show ?thesis using eff(1) that by simp
    qed
  qed
  have sell: "orderSide = OrderSideSell \<longrightarrow>
                    (fmlookup (positions e) symbol = None \<longrightarrow>
                       positions e' = positions e \<and> account e' = account e
                       \<and> trades e' = trades e)
                    \<and> (\<forall>old. fmlookup (positions e) symbol = Some old \<longrightarrow>
                         a_RealizedPnL (account e')
                           = a_RealizedPnL (account e)
                             + float64_of quantity * (q_LastPrice quote - p_EntryPrice old)
                         \<and> (sint (p_Quantity old - quantity) \<le> 0 \<longrightarrow>
                              fmlookup (positions e') symbol = None
                              \<and> (\<exists>tr. trades e' = trades e @ [tr]
                                    \<and> t_Symbol tr = symbol
                                    \<and> t_RealizedPnL tr
                                        = float64_of quantity
                                            * (q_LastPrice quote - p_EntryPrice old)))
                         \<and> (0 < sint (p_Quantity old - quantity) \<longrightarrow>
                              (\<exists>pos. fmlookup (positions e') symbol = Some pos
                                 \<and> p_Quantity pos = p_Quantity old - quantity
                                 \<and> p_CurrentPrice pos = q_LastPrice quote
                                 \<and> p_EntryPrice pos = p_EntryPrice old)
                              \<and> trades e' = trades e))"
  proof (intro impI conjI allI)
    assume "orderSide = OrderSideSell"
    then have ss: "o_Side order = OrderSideSell" using side by simp
    {
      assume "fmlookup (positions e) symbol = None"
      then have "fmlookup (positions ?e1) (o_Symbol order) = None" using sym by simp
      from updatePosition_sell_nothing[OF ss this, of "later 2 clk"]
      show "positions e' = positions e" "account e' = account e" "trades e' = trades e"
        using eff by simp_all
    }
    fix old assume "fmlookup (positions e) symbol = Some old"
    then have h: "fmlookup (positions ?e1) (o_Symbol order) = Some old" using sym by simp
    show "a_RealizedPnL (account e')
            = a_RealizedPnL (account e) + float64_of quantity * (q_LastPrice quote - p_EntryPrice old)"
      using updatePosition_sell_account[OF filled ss h, of "later 2 clk"] eff(2) qty px by simp
    {
      assume "sint (p_Quantity old - quantity) \<le> 0"
      then have g: "sint (p_Quantity old - o_FilledQty order) \<le> 0" using qty by simp
      note c = updatePosition_sell_close[OF filled ss h t g, of "later 2 clk"]
      show "fmlookup (positions e') symbol = None" using c(1) eff(1) sym by simp
      show "\<exists>tr. trades e' = trades e @ [tr] \<and> t_Symbol tr = symbol
               \<and> t_RealizedPnL tr = float64_of quantity * (q_LastPrice quote - p_EntryPrice old)"
        using c(2) eff(3) sym qty px by simp
    }
    {
      assume "0 < sint (p_Quantity old - quantity)"
      then have g: "0 < sint (p_Quantity old - o_FilledQty order)" using qty by simp
      note c = updatePosition_sell_part[OF filled ss h g, of "later 2 clk"]
      show "\<exists>pos. fmlookup (positions e') symbol = Some pos
                                 \<and> p_Quantity pos = p_Quantity old - quantity
                                 \<and> p_CurrentPrice pos = q_LastPrice quote
                                 \<and> p_EntryPrice pos = p_EntryPrice old"
        using c(1) eff(1) sym qty px by simp
      show "trades e' = trades e" using c(2) eff(3) by simp
    }
  qed
  show "(\<exists>order e'. SubmitOrder clk dm e symbol quantity price OrderTypeMarket orderSide
                             = (Inr order, e')
                 \<and> o_Status order = OrderStatusFilled
                 \<and> o_FilledQty order = quantity
                 \<and> o_AvgFillPrice order = q_LastPrice quote
                 \<and> GetOrder e' (o_ID order) = Inr order
                 \<and> positions e' = positions (snd (updatePosition (later 2 clk) e order))
                 \<and> account e' = account (snd (updatePosition (later 2 clk) e order))
                 \<and> (\<forall>s. s \<noteq> symbol \<longrightarrow> fmlookup (positions e') s = fmlookup (positions e) s)
                 \<and> (orderSide = OrderSideBuy \<longrightarrow>
                      account e' = account e \<and> trades e' = trades e
                      \<and> (fmlookup (positions e) symbol = None \<longrightarrow>
                           (\<exists>pos. fmlookup (positions e') symbol = Some pos
                              \<and> p_Symbol pos = symbol
                              \<and> p_Quantity pos = quantity
                              \<and> p_EntryPrice pos = q_LastPrice quote
                              \<and> p_CurrentPrice pos = q_LastPrice quote
                              \<and> p_Cost pos = float64_of quantity * q_LastPrice quote))
                      \<and> (\<forall>old. fmlookup (positions e) symbol = Some old
                                \<and> 0 < sint (p_Quantity old + quantity) \<longrightarrow>
                           (\<exists>pos. fmlookup (positions e') symbol = Some pos
                              \<and> p_Quantity pos = p_Quantity old + quantity
                              \<and> p_Cost pos = p_Cost old + float64_of quantity * q_LastPrice quote
                              \<and> p_EntryPrice pos
                                  = (p_Cost old + float64_of quantity * q_LastPrice quote)
                                      / float64_of (p_Quantity old + quantity)
                              \<and> p_CurrentPrice pos = q_LastPrice quote))
                      \<and> (\<forall>old. fmlookup (positions e) symbol = Some old
                                \<and> \<not> 0 < sint (p_Quantity old + quantity) \<longrightarrow>
                           fmlookup (positions e') symbol = Some old))
                 \<and> (orderSide = OrderSideSell \<longrightarrow>
                      (fmlookup (positions e) symbol = None \<longrightarrow>
                         positions e' = positions e \<and> account e' = account e
                         \<and> trades e' = trades e)
                      \<and> (\<forall>old. fmlookup (positions e) symbol = Some old \<longrightarrow>
                           a_RealizedPnL (account e')
                             = a_RealizedPnL (account e)
                               + float64_of quantity * (q_LastPrice quote - p_EntryPrice old)
                           \<and> (sint (p_Quantity old - quantity) \<le> 0 \<longrightarrow>
                                fmlookup (positions e') symbol = None
                                \<and> (\<exists>tr. trades e' = trades e @ [tr]
                                      \<and> t_Symbol tr = symbol
                                      \<and> t_RealizedPnL tr
                                          = float64_of quantity
                                              * (q_LastPrice quote - p_EntryPrice old)))
                           \<and> (0 < sint (p_Quantity old - quantity) \<longrightarrow>
                                (\<exists>pos. fmlookup (positions e') symbol = Some pos
                                   \<and> p_Quantity pos = p_Quantity old - quantity
                                   \<and> p_CurrentPrice pos = q_LastPrice quote
                                   \<and> p_EntryPrice pos = p_EntryPrice old)
                                \<and> trades e' = trades e))))"
    by (rule exI[of _ order], rule exI[of _ e'])
       (intro conjI; (fact sub filled qty px stored same others buy sell))
next
  assume "(\<exists>err. GetPrimaryDataSource dm = Inl err)
            \<or> (\<exists>ds err. GetPrimaryDataSource dm = Inr (Some ds)
                  \<and> ds_GetRealTimeQuote ds symbol = Inl err)"
  then show "(\<exists>order e'. SubmitOrder clk dm e symbol quantity price OrderTypeMarket orderSide
                             = (Inr order, e')
                 \<and> o_Status order = OrderStatusAccepted
                 \<and> GetOrder e' (o_ID order) = Inr order
                 \<and> positions e' = positions e
                 \<and> account e' = account e)"
    using assms
    by (auto simp: SubmitOrder_def Let_def GetOrder_def zero_Order_def)
qed


theorem SubmitOrder_market_witness:
  "(\<exists>order e'. SubmitOrder (clock_from 1000) (manager_of (steady_source ''polygon'' 150))
                    enabled_engine ''AAPL'' 100 0 OrderTypeMarket OrderSideBuy = (Inr order, e')
      \<and> o_Status order = OrderStatusFilled
      \<and> o_FilledQty order = 100
      \<and> o_AvgFillPrice order = 150
      \<and> GetOrder e' (o_ID order) = Inr order
      \<and> (\<exists>pos. fmlookup (positions e') ''AAPL'' = Some pos
             \<and> p_Symbol pos = ''AAPL'' \<and> p_Quantity pos = 100 \<and> p_EntryPrice pos = 150
             \<and> p_CurrentPrice pos = 150 \<and> p_Cost pos = 15000)
      \<and> account e' = zero_Account \<and> trades e' = [])
   \<and> (\<exists>order e'. SubmitOrder (clock_from 2000) (manager_of (steady_source ''polygon'' 155))
                    sample_engine ''AAPL'' 40 0 OrderTypeMarket OrderSideSell = (Inr order, e')
      \<and> o_Status order = OrderStatusFilled
      \<and> o_FilledQty order = 40
      \<and> o_AvgFillPrice order = 155
      \<and> (\<exists>pos. fmlookup (positions e') ''AAPL'' = Some pos
             \<and> p_Quantity pos = 60 \<and> p_CurrentPrice pos = 155 \<and> p_EntryPrice pos = 150)
      \<and> a_RealizedPnL (account e') = a_RealizedPnL (account sample_engine) + 200
      \<and> trades e' = trades sample_engine)
   \<and> (\<exists>order e'. SubmitOrder (clock_from 1000) (manager_of (failing_source ''polygon''))
                    enabled_engine ''AAPL'' 100 0 OrderTypeMarket OrderSideBuy = (Inr order, e')
      \<and> o_Status order = OrderStatusAccepted
      \<and> GetOrder e' (o_ID order) = Inr order
      \<and> positions e' = fmempty
      \<and> account e' = zero_Account)"
proof -
  have pass: "IsEnabled enabled_engine" "''AAPL'' \<noteq> []" "0 < sint (100 :: int64)"
    "OrderSideBuy = OrderSideBuy \<or> OrderSideBuy = OrderSideSell"
    "OrderSideBuy = OrderSideBuy \<longrightarrow>
       int (fcard (fmdom (positions enabled_engine))) < MaxPositions (limits enabled_engine)"
    by (simp_all add: sample_eval)
  have pass': "IsEnabled sample_engine" "''AAPL'' \<noteq> []" "0 < sint (40 :: int64)"
    "OrderSideSell = OrderSideBuy \<or> OrderSideSell = OrderSideSell"
    "OrderSideSell = OrderSideBuy \<longrightarrow>
       int (fcard (fmdom (positions sample_engine))) < MaxPositions (limits sample_engine)"
    by (simp_all add: IsEnabled_def sample_engine_state OrderSide_defs)
  have ok: "GetPrimaryDataSource (manager_of (steady_source ''polygon'' p))
              = Inr (Some (steady_source ''polygon'' p))
            \<and> ds_GetRealTimeQuote (steady_source ''polygon'' p) ''AAPL''
              = Inr (quote_at ''AAPL'' p)" for p
    by (simp add: GetPrimaryDataSource_def manager_of_def steady_source_def)
  have bad: "(\<exists>err. GetPrimaryDataSource (manager_of (failing_source ''polygon'')) = Inl err)
            \<or> (\<exists>ds err. GetPrimaryDataSource (manager_of (failing_source ''polygon'')) = Inr (Some ds)
                  \<and> ds_GetRealTimeQuote ds ''AAPL'' = Inl err)"
    by (simp add: GetPrimaryDataSource_def manager_of_def failing_source_def)
  have e: "positions enabled_engine = fmempty" "account enabled_engine = zero_Account"
    "trades enabled_engine = []"
    by (simp_all add: sample_eval)
  have held: "fmlookup (positions sample_engine) ''AAPL'' = Some sample_position"
    "p_Quantity sample_position = 100" "p_EntryPrice sample_position = 150"
    by (simp_all add: sample_engine_state sample_position_def)
  have q: "q_LastPrice (quote_at ''AAPL'' p) = p" for p by (simp add: quote_at_def)
  have ne: "OrderSideBuy \<noteq> OrderSideSell" by (simp add: OrderSide_defs)
  have a: "\<exists>order e'. SubmitOrder (clock_from 1000) (manager_of (steady_source ''polygon'' 150))
                    enabled_engine ''AAPL'' 100 0 OrderTypeMarket OrderSideBuy = (Inr order, e')
      \<and> o_Status order = OrderStatusFilled
      \<and> o_FilledQty order = 100
      \<and> o_AvgFillPrice order = 150
      \<and> GetOrder e' (o_ID order) = Inr order
      \<and> (\<exists>pos. fmlookup (positions e') ''AAPL'' = Some pos
             \<and> p_Symbol pos = ''AAPL'' \<and> p_Quantity pos = 100 \<and> p_EntryPrice pos = 150
             \<and> p_CurrentPrice pos = 150 \<and> p_Cost pos = 15000)
      \<and> account e' = zero_Account \<and> trades e' = []"
    using SubmitOrder_market[OF pass, THEN conjunct1, rule_format, OF ok[of 150],
            of "clock_from 1000" 0]
    by (simp add: q e float64_of_def) blast
  have b: "\<exists>order e'. SubmitOrder (clock_from 2000) (manager_of (steady_source ''polygon'' 155))
                    sample_engine ''AAPL'' 40 0 OrderTypeMarket OrderSideSell = (Inr order, e')
      \<and> o_Status order = OrderStatusFilled
      \<and> o_FilledQty order = 40
      \<and> o_AvgFillPrice order = 155
      \<and> (\<exists>pos. fmlookup (positions e') ''AAPL'' = Some pos
             \<and> p_Quantity pos = 60 \<and> p_CurrentPrice pos = 155 \<and> p_EntryPrice pos = 150)
      \<and> a_RealizedPnL (account e') = a_RealizedPnL (account sample_engine) + 200
      \<and> trades e' = trades sample_engine"
    using SubmitOrder_market[OF pass', THEN conjunct1, rule_format, OF ok[of 155],
            of "clock_from 2000" 0]
    by (simp add: q held float64_of_def ne[symmetric]) blast
  have c: "\<exists>order e'. SubmitOrder (clock_from 1000) (manager_of (failing_source ''polygon''))
                    enabled_engine ''AAPL'' 100 0 OrderTypeMarket OrderSideBuy = (Inr order, e')
      \<and> o_Status order = OrderStatusAccepted
      \<and> GetOrder e' (o_ID order) = Inr order
      \<and> positions e' = fmempty
      \<and> account e' = zero_Account"
    using SubmitOrder_market[OF pass, THEN conjunct2, rule_format, OF bad, of "clock_from 1000" 0]
    by (simp add: e)
  show ?thesis using a b c by blast
qed


section \<open>Weighted average cost (C7)\<close>








section \<open>Stored positions have positive quantity (C9)\<close>

text \<open>
  Claim C9. In every state that the engine reaches from \<open>NewBaseTradingEngine\<close> by calls
  of its methods, each position of the position map has a quantity greater than 0: what
  \<open>GetPosition\<close> returns has positive quantity, and so has every element of the list that
  \<open>GetPositions\<close> returns, whatever the order of the range. A filled sell of at least
  the quantity held (also of more) removes the position, so that \<open>GetPosition\<close> finds
  none afterwards.
\<close>

theorem positions_always_positive:
  "(GetPosition (run_ops (NewBaseTradingEngine cfg l) ops) symbol = Inr pos
      \<longrightarrow> 0 < sint (p_Quantity pos))
   \<and> (\<forall>pos \<in> set (GetPositions ks (run_ops (NewBaseTradingEngine cfg l) ops)).
         0 < sint (p_Quantity pos))
   \<and> (fmlookup (positions (run_ops (NewBaseTradingEngine cfg l) ops)) symbol = Some held
        \<and> SubmitOrder clk dm (run_ops (NewBaseTradingEngine cfg l) ops) symbol q price
              OrderTypeMarket OrderSideSell = (Inr order, e')
        \<and> o_Status order = OrderStatusFilled
        \<and> sint (p_Quantity held) \<le> sint q
      \<longrightarrow> GetPosition e' symbol = Inl (ErrNoPosition symbol))"
proof -
  let ?e = "run_ops (NewBaseTradingEngine cfg l) ops"
  have inv: "positions_invar ?e"
    by (rule run_ops_invar) (rule NewBaseTradingEngine_invar)
  have one: "GetPosition ?e symbol = Inr pos \<longrightarrow> 0 < sint (p_Quantity pos)"
    using inv by (auto simp: GetPosition_def positions_invar_def split: option.splits)
  have all: "\<forall>pos \<in> set (GetPositions ks ?e). 0 < sint (p_Quantity pos)"
    using inv by (auto simp: GetPositions_def positions_invar_def List.map_filter_def)
  have sell: "GetPosition e' symbol = Inl (ErrNoPosition symbol)"
    if held: "fmlookup (positions ?e) symbol = Some held"
      and s: "SubmitOrder clk dm ?e symbol q price OrderTypeMarket OrderSideSell = (Inr order, e')"
      and filled: "o_Status order = OrderStatusFilled"
      and over: "sint (p_Quantity held) \<le> sint q"
  proof -
    note f = SubmitOrder_filled[OF s filled]
    have hq: "0 < sint (p_Quantity held)"
      using inv held by (simp add: positions_invar_def)
    have "sint (p_Quantity held - q) = sint (p_Quantity held) - sint q"
      using hq f(1) by (rule sint_sub_no_overflow)
    then have le: "sint (p_Quantity held - o_FilledQty order) \<le> 0"
      using over f(3) by simp
    have held': "fmlookup (positions ?e) (o_Symbol order) = Some held"
      using held f(2) by simp
    from f(5) obtain t where t: "o_FilledAt order = Some t" by blast
    have "fmlookup (positions e') symbol = None"
      using updatePosition_sell_close(1)[OF filled f(4) held' t le, of "later 2 clk"]
        SubmitOrder_filled_positions(1)[OF s filled] f(2)
      by simp
    then show ?thesis by (simp add: GetPosition_def)
  qed
  show ?thesis using one all sell by blast
qed

theorem positions_always_positive_witness:
  "GetPosition sample_engine ''AAPL'' = Inr sample_position
   \<and> 0 < sint (p_Quantity sample_position)
   \<and> GetPositions [''AAPL''] sample_engine = [sample_position]
   \<and> GetPosition (snd oversized_sell) ''AAPL'' = Inl (ErrNoPosition ''AAPL'')"
proof -
  have g: "GetPosition sample_engine ''AAPL'' = Inr sample_position"
    by (simp add: GetPosition_def sample_engine_state)
  have gs: "GetPositions [''AAPL''] sample_engine = [sample_position]"
    by (simp add: GetPositions_def sample_engine_state)
  have held: "fmlookup (positions sample_engine) ''AAPL'' = Some sample_position"
    by (simp add: sample_engine_state)
  have S: "SubmitOrder (clock_from 2000) (manager_of (steady_source ''polygon'' 155))
             sample_engine ''AAPL'' 200 0 OrderTypeMarket OrderSideSell
           = (Inr (projr (fst oversized_sell)), snd oversized_sell)"
    using oversized_sell_result(1) by (cases oversized_sell) (simp add: oversized_sell_def)
  have over: "sint (p_Quantity sample_position) \<le> sint (200 :: int64)"
    by (simp add: sample_position_def)
  note p = positions_always_positive[of paper_broker sample_limits sample_history "''AAPL''"
              sample_position "[''AAPL'']" sample_position "clock_from 2000"
              "manager_of (steady_source ''polygon'' 155)" 200 0 "projr (fst oversized_sell)"
              "snd oversized_sell", folded sample_engine_def]
  have a: "0 < sint (p_Quantity sample_position)"
    using p[THEN conjunct1] g by simp
  have b: "GetPosition (snd oversized_sell) ''AAPL'' = Inl (ErrNoPosition ''AAPL'')"
    using p[THEN conjunct2, THEN conjunct2] held S oversized_sell_result(2) over by blast
  show ?thesis using g gs a b by blast
qed


section \<open>Cancelling an order (C4)\<close>

text \<open>
  Claim C4, as amended. For an order that the engine holds: when its status is filled,
  rejected or canceled, \<open>CancelOrder\<close> returns an error and leaves the engine, and with it
  the order, unchanged; when the engine is enabled and the status is any other one
  (pending, submitted, accepted, partial, and also expired), the order becomes canceled,
  with a fresh \<open>UpdatedAt\<close>, and nothing else changes; when the engine is disabled,
  \<open>CancelOrder\<close> returns the disabled-trading error and changes nothing.
\<close>

theorem CancelOrder_by_status:
  assumes "fmlookup (orders e) orderID = Some order"
  shows "(o_Status order \<in> {OrderStatusFilled, OrderStatusRejected, OrderStatusCanceled}
            \<longrightarrow> (\<exists>err. CancelOrder clk e orderID = (Some err, e)))
       \<and> (IsEnabled e
            \<and> o_Status order \<in> {OrderStatusFilled, OrderStatusRejected, OrderStatusCanceled}
            \<longrightarrow> CancelOrder clk e orderID = (Some (ErrCannotCancel (o_Status order)), e))
       \<and> (IsEnabled e
            \<and> o_Status order \<notin> {OrderStatusFilled, OrderStatusRejected, OrderStatusCanceled}
            \<longrightarrow> CancelOrder clk e orderID
                  = (None, e\<lparr>orders := fmupd orderID
                                 (order\<lparr>o_Status := OrderStatusCanceled, o_UpdatedAt := clk 0\<rparr>)
                                 (orders e)\<rparr>))
       \<and> (\<not> IsEnabled e \<longrightarrow> CancelOrder clk e orderID = (Some ErrTradeDisabled, e))"
  using assms by (auto simp: CancelOrder_def Let_def)

theorem CancelOrder_by_status_witness:
  "CancelOrder (clock_from 5000) (engine_with_order True OrderStatusCanceled) ''order-1''
     = (Some (ErrCannotCancel OrderStatusCanceled), engine_with_order True OrderStatusCanceled)
   \<and> CancelOrder (clock_from 5000) (engine_with_order False OrderStatusFilled) ''order-1''
     = (Some ErrTradeDisabled, engine_with_order False OrderStatusFilled)
   \<and> fst (CancelOrder (clock_from 5000) (engine_with_order True OrderStatusAccepted) ''order-1'')
     = None
   \<and> map_option o_Status
        (fmlookup (orders (snd (CancelOrder (clock_from 5000)
                                  (engine_with_order True OrderStatusAccepted) ''order-1'')))
           ''order-1'')
     = Some OrderStatusCanceled"
proof -
  have l: "\<And>on st. fmlookup (orders (engine_with_order on st)) ''order-1''
             = Some (zero_Order\<lparr> o_ID := ''order-1'', o_Symbol := ''AAPL'', o_Quantity := 100,
                                  o_Price := 150, o_Type := OrderTypeLimit,
                                  o_Side := OrderSideBuy, o_Status := st \<rparr>)"
    by (simp add: engine_with_order_def)
  have 1: "CancelOrder (clock_from 5000) (engine_with_order True OrderStatusCanceled) ''order-1''
     = (Some (ErrCannotCancel OrderStatusCanceled), engine_with_order True OrderStatusCanceled)"
    using CancelOrder_by_status[OF l[of True OrderStatusCanceled], where clk = "clock_from 5000", THEN conjunct2, THEN conjunct1]
    by (simp add: engine_with_order_def IsEnabled_def)
  have 2: "CancelOrder (clock_from 5000) (engine_with_order False OrderStatusFilled) ''order-1''
     = (Some ErrTradeDisabled, engine_with_order False OrderStatusFilled)"
    using CancelOrder_by_status[OF l[of False OrderStatusFilled], where clk = "clock_from 5000", THEN conjunct2, THEN conjunct2, THEN conjunct2]
    by (simp add: engine_with_order_def IsEnabled_def)
  have 3: "CancelOrder (clock_from 5000) (engine_with_order True OrderStatusAccepted) ''order-1''
            = (None, (engine_with_order True OrderStatusAccepted)
                \<lparr>orders := fmupd ''order-1''
                   (zero_Order\<lparr> o_ID := ''order-1'', o_Symbol := ''AAPL'', o_Quantity := 100,
                                  o_Price := 150, o_Type := OrderTypeLimit,
                                  o_Side := OrderSideBuy, o_Status := OrderStatusAccepted,
                                  o_Status := OrderStatusCanceled,
                                  o_UpdatedAt := clock_from 5000 0 \<rparr>)
                   (orders (engine_with_order True OrderStatusAccepted))\<rparr>)"
    using CancelOrder_by_status[OF l[of True OrderStatusAccepted], where clk = "clock_from 5000", THEN conjunct2, THEN conjunct2, THEN conjunct1]
    by (simp add: engine_with_order_def IsEnabled_def OrderStatus_defs)
  show ?thesis
    unfolding 1 2 3 by simp
qed


text \<open>
  The claim as stated fails in two places. \<open>CancelOrder\<close> tests for filled, canceled and
  rejected only, so an order in status expired is canceled without error. And on a
  disabled engine an accepted order is not canceled: the call returns the
  disabled-trading error and the order stays accepted.
\<close>

theorem CancelOrder_terminal_counterexample:
  "fst (CancelOrder (clock_from 5000) (engine_with_order True OrderStatusExpired) ''order-1'')
     = None
   \<and> map_option o_Status
        (fmlookup (orders (snd (CancelOrder (clock_from 5000)
                                  (engine_with_order True OrderStatusExpired) ''order-1'')))
           ''order-1'')
     = Some OrderStatusCanceled
   \<and> fst (CancelOrder (clock_from 5000) (engine_with_order False OrderStatusAccepted) ''order-1'')
     = Some ErrTradeDisabled
   \<and> map_option o_Status
        (fmlookup (orders (snd (CancelOrder (clock_from 5000)
                                  (engine_with_order False OrderStatusAccepted) ''order-1'')))
           ''order-1'')
     = Some OrderStatusAccepted"
  by (simp add: CancelOrder_def Let_def cancel_eval)


section \<open>Updating a watchlist item (C10)\<close>

text \<open>
  Claim C10. \<open>UpdateItem\<close> on an ID that the watchlist holds stores, under that ID, an
  item that has the ID and the \<open>AddedAt\<close> of the item stored before, whatever the supplied
  item says, \<open>UpdatedAt\<close> read from the clock, and every other field from the supplied
  item; the other entries of the map stay. On an ID that the watchlist does not hold it
  returns an error and the watchlist is unchanged.
\<close>

theorem UpdateItem_keeps_ID_AddedAt:
  "(fmlookup (items w) id' = Some item \<longrightarrow>
      (\<exists>w' stored. UpdateItem clk w id' updatedItem = (None, w')
         \<and> fmlookup (items w') id' = Some stored
         \<and> w_ID stored = w_ID item
         \<and> w_AddedAt stored = w_AddedAt item
         \<and> w_UpdatedAt stored = clk 0
         \<and> w_Symbol stored = w_Symbol updatedItem
         \<and> w_TargetPrice stored = w_TargetPrice updatedItem
         \<and> w_StopLoss stored = w_StopLoss updatedItem
         \<and> w_TakeProfit stored = w_TakeProfit updatedItem
         \<and> w_Quantity stored = w_Quantity updatedItem
         \<and> w_Status stored = w_Status updatedItem
         \<and> w_ExpiresAt stored = w_ExpiresAt updatedItem
         \<and> w_TriggeredAt stored = w_TriggeredAt updatedItem
         \<and> w_Strategy stored = w_Strategy updatedItem
         \<and> w_ScanResults stored = w_ScanResults updatedItem
         \<and> w_Notes stored = w_Notes updatedItem
         \<and> w_Tags stored = w_Tags updatedItem
         \<and> w_OrderID stored = w_OrderID updatedItem
         \<and> w_IsBuyList stored = w_IsBuyList updatedItem
         \<and> (\<forall>k. k \<noteq> id' \<longrightarrow> fmlookup (items w') k = fmlookup (items w) k)))
   \<and> (fmlookup (items w) id' = None \<longrightarrow>
         UpdateItem clk w id' updatedItem = (Some (ErrItemNotFound id'), w))"
  by (simp add: UpdateItem_def Let_def)

theorem UpdateItem_keeps_ID_AddedAt_witness:
  "(\<exists>w' stored.
       UpdateItem (clock_from 1000) sample_watchlist ''w1''
         (sell_item\<lparr>w_ID := ''other'', w_AddedAt := 7\<rparr>) = (None, w')
       \<and> fmlookup (items w') ''w1'' = Some stored
       \<and> w_ID stored = ''w1'' \<and> w_AddedAt stored = 500 \<and> w_UpdatedAt stored = 1000
       \<and> w_StopLoss stored = 90 \<and> w_IsBuyList stored = False)
   \<and> UpdateItem (clock_from 1000) sample_watchlist ''w9'' sell_item
       = (Some (ErrItemNotFound ''w9''), sample_watchlist)"
proof -
  have a: "fmlookup (items sample_watchlist) ''w1'' = Some buy_item"
    and b: "fmlookup (items sample_watchlist) ''w9'' = None"
    by (simp_all add: sample_watchlist_def)
  have f: "w_ID buy_item = ''w1''" "w_AddedAt buy_item = 500"
    "w_StopLoss sell_item = 90" "w_IsBuyList sell_item = False" "clock_from 1000 0 = 1000"
    by (simp_all add: watch_eval clock_from_def)
  show ?thesis
    using UpdateItem_keeps_ID_AddedAt[of sample_watchlist "''w1''" buy_item "clock_from 1000"
            "sell_item\<lparr>w_ID := ''other'', w_AddedAt := 7\<rparr>", THEN conjunct1, rule_format, OF a]
      UpdateItem_keeps_ID_AddedAt[of sample_watchlist "''w9''" buy_item "clock_from 1000"
            sell_item, THEN conjunct2, rule_format, OF b]
    by (auto simp: f)
qed


section \<open>Triggers of a watchlist pass (C6)\<close>

text \<open>
  Claim C6. In a pass of \<open>ScanWatchlist\<close> over a watchlist whose items are stored under
  their IDs, for an active item that the pass visits: if its expiry lies before the
  clock readings of the pass, it is stored with status expired and is not among the
  triggered items that the pass returns, whatever the price; if it is not expired and
  the quote for its symbol arrives, a buy-list item with positive target price ends
  stored with status triggered, with a trigger timestamp, and among the returned items
  exactly when the last price is at most the target price, and a sell-list item exactly
  when the last price is at most its positive stop-loss or at least its positive
  take-profit. An item that does not trigger (the price condition fails, the target
  price is not positive, or no quote arrives) stays stored exactly as it was, still
  active, and no returned item has its ID. Every returned item has status triggered and
  a trigger timestamp.
\<close>

theorem ScanWatchlist_triggers:
  assumes keyed: "items_keyed w"
    and visited: "id' \<in> set ks"
    and item: "fmlookup (items w) id' = Some item"
    and active: "w_Status item = WatchStatusActive"
    and scan: "ScanWatchlist clk dm ks w = (Inr triggeredItems, w')"
  shows "((\<exists>expiry. w_ExpiresAt item = Some expiry \<and> (\<forall>n. expiry < clk n)) \<longrightarrow>
            (\<exists>stored. fmlookup (items w') id' = Some stored
                \<and> w_Status stored = WatchStatusExpired)
            \<and> id' \<notin> w_ID ` set triggeredItems)
       \<and> ((\<forall>expiry. w_ExpiresAt item = Some expiry \<longrightarrow> (\<forall>n. \<not> expiry < clk n))
            \<and> GetPrimaryDataSource dm = Inr (Some ds)
            \<and> ds_GetRealTimeQuote ds (w_Symbol item) = Inr quote \<longrightarrow>
            (w_IsBuyList item \<and> 0 < w_TargetPrice item \<longrightarrow>
               ((\<exists>stored. fmlookup (items w') id' = Some stored
                    \<and> w_Status stored = WatchStatusTriggered
                    \<and> w_TriggeredAt stored \<noteq> None
                    \<and> stored \<in> set triggeredItems)
                \<longleftrightarrow> q_LastPrice quote \<le> w_TargetPrice item)
               \<and> (\<not> q_LastPrice quote \<le> w_TargetPrice item \<longrightarrow> (fmlookup (items w') id' = Some item \<and> id' \<notin> w_ID ` set triggeredItems)))
            \<and> (w_IsBuyList item \<and> \<not> 0 < w_TargetPrice item \<longrightarrow> (fmlookup (items w') id' = Some item \<and> id' \<notin> w_ID ` set triggeredItems))
            \<and> (\<not> w_IsBuyList item \<longrightarrow>
               ((\<exists>stored. fmlookup (items w') id' = Some stored
                    \<and> w_Status stored = WatchStatusTriggered
                    \<and> w_TriggeredAt stored \<noteq> None
                    \<and> stored \<in> set triggeredItems)
                \<longleftrightarrow> ((0 < w_StopLoss item \<and> q_LastPrice quote \<le> w_StopLoss item)
                     \<or> (0 < w_TakeProfit item \<and> w_TakeProfit item \<le> q_LastPrice quote)))
               \<and> (\<not> ((0 < w_StopLoss item \<and> q_LastPrice quote \<le> w_StopLoss item)
                     \<or> (0 < w_TakeProfit item \<and> w_TakeProfit item \<le> q_LastPrice quote)) \<longrightarrow> (fmlookup (items w') id' = Some item \<and> id' \<notin> w_ID ` set triggeredItems))))
       \<and> ((\<forall>expiry. w_ExpiresAt item = Some expiry \<longrightarrow> (\<forall>n. \<not> expiry < clk n))
            \<and> ((\<exists>err. GetPrimaryDataSource dm = Inl err)
                 \<or> (\<exists>src err. GetPrimaryDataSource dm = Inr (Some src)
                       \<and> ds_GetRealTimeQuote src (w_Symbol item) = Inl err)) \<longrightarrow> (fmlookup (items w') id' = Some item \<and> id' \<notin> w_ID ` set triggeredItems))
       \<and> (\<forall>x \<in> set triggeredItems.
             w_Status x = WatchStatusTriggered \<and> w_TriggeredAt x \<noteq> None)"
proof -
  note pass = ScanWatchlist_item[OF keyed visited item active scan]
  have expired: "(\<exists>stored. fmlookup (items w') id' = Some stored
                \<and> w_Status stored = WatchStatusExpired)
            \<and> id' \<notin> w_ID ` set triggeredItems"
    if "\<exists>expiry. w_ExpiresAt item = Some expiry \<and> (\<forall>n. expiry < clk n)"
  proof -
    from that obtain expiry where e: "w_ExpiresAt item = Some expiry" "\<forall>n. expiry < clk n"
      by blast
    have "\<forall>n. \<exists>m x'. scan_item clk dm n item = Update m x' \<and> w_Status x' = WatchStatusExpired"
      using scan_item_expired[OF e] by simp
    from pass(2)[of "\<lambda>x'. w_Status x' = WatchStatusExpired", OF this] show ?thesis by blast
  qed
  let ?fired = "(\<exists>stored. fmlookup (items w') id' = Some stored
                    \<and> w_Status stored = WatchStatusTriggered
                    \<and> w_TriggeredAt stored \<noteq> None
                    \<and> stored \<in> set triggeredItems)"
  let ?cond = "if w_IsBuyList item
                then w_TargetPrice item > 0 \<and> q_LastPrice quote \<le> w_TargetPrice item
                else (w_StopLoss item > 0 \<and> q_LastPrice quote \<le> w_StopLoss item)
                     \<or> (w_TakeProfit item > 0 \<and> q_LastPrice quote \<ge> w_TakeProfit item)"
  have quoted: "(?fired \<longleftrightarrow> ?cond) \<and> (\<not> ?cond \<longrightarrow> (fmlookup (items w') id' = Some item \<and> id' \<notin> w_ID ` set triggeredItems))"
    if a: "(\<forall>expiry. w_ExpiresAt item = Some expiry \<longrightarrow> (\<forall>n. \<not> expiry < clk n))
            \<and> GetPrimaryDataSource dm = Inr (Some ds)
            \<and> ds_GetRealTimeQuote ds (w_Symbol item) = Inr quote"
  proof -
    from a have q: "\<And>n. \<exists>n1. scan_item clk dm n item =
           (if ?cond
            then Trigger (n1 + 1) (item\<lparr>w_Status := WatchStatusTriggered,
                                     w_TriggeredAt := Some (clk n1), w_UpdatedAt := clk n1\<rparr>)
            else Continue n1)"
      using scan_item_quoted[of item clk dm ds quote] by blast
    show ?thesis
    proof (cases ?cond)
      case True
      have "\<exists>m x'. scan_item clk dm n item = Trigger m x'
                   \<and> (w_Status x' = WatchStatusTriggered \<and> w_TriggeredAt x' \<noteq> None)" for n
      proof -
        from q[of n] True obtain n1 where
          "scan_item clk dm n item
             = Trigger (n1 + 1) (item\<lparr>w_Status := WatchStatusTriggered,
                                      w_TriggeredAt := Some (clk n1), w_UpdatedAt := clk n1\<rparr>)"
          by auto
        then show ?thesis by simp
      qed
      then have "\<forall>n. \<exists>m x'. scan_item clk dm n item = Trigger m x'
                   \<and> (w_Status x' = WatchStatusTriggered \<and> w_TriggeredAt x' \<noteq> None)"
        by blast
      from pass(3)[of "\<lambda>x'. w_Status x' = WatchStatusTriggered \<and> w_TriggeredAt x' \<noteq> None", OF this]
      show ?thesis using True by blast
    next
      case False
      with q have "\<forall>n. \<exists>m. scan_item clk dm n item = Continue m" by metis
      from pass(1)[OF this] have u: "(fmlookup (items w') id' = Some item \<and> id' \<notin> w_ID ` set triggeredItems)" .
      then have "\<not> ?fired"
        using active by (auto simp: WatchStatusActive_def WatchStatusTriggered_def)
      with False u show ?thesis by blast
    qed
  qed
  have unquoted: "(fmlookup (items w') id' = Some item \<and> id' \<notin> w_ID ` set triggeredItems)"
    if "(\<forall>expiry. w_ExpiresAt item = Some expiry \<longrightarrow> (\<forall>n. \<not> expiry < clk n))
            \<and> ((\<exists>err. GetPrimaryDataSource dm = Inl err)
                 \<or> (\<exists>src err. GetPrimaryDataSource dm = Inr (Some src)
                       \<and> ds_GetRealTimeQuote src (w_Symbol item) = Inl err))"
  proof -
    have "\<forall>n. \<exists>m. scan_item clk dm n item = Continue m"
      using scan_item_unquoted[of item clk dm] that by blast
    from pass(1)[OF this] show ?thesis .
  qed
  have returned: "\<forall>x \<in> set triggeredItems.
             w_Status x = WatchStatusTriggered \<and> w_TriggeredAt x \<noteq> None"
    using ScanWatchlist_returned[OF scan] by blast
  have buy: "(?fired \<longleftrightarrow> q_LastPrice quote \<le> w_TargetPrice item)
               \<and> (\<not> q_LastPrice quote \<le> w_TargetPrice item \<longrightarrow> (fmlookup (items w') id' = Some item \<and> id' \<notin> w_ID ` set triggeredItems))"
    if "(\<forall>expiry. w_ExpiresAt item = Some expiry \<longrightarrow> (\<forall>n. \<not> expiry < clk n))
            \<and> GetPrimaryDataSource dm = Inr (Some ds)
            \<and> ds_GetRealTimeQuote ds (w_Symbol item) = Inr quote"
       "w_IsBuyList item \<and> 0 < w_TargetPrice item"
    using quoted[OF that(1)] that(2) by simp
  have buy0: "(fmlookup (items w') id' = Some item \<and> id' \<notin> w_ID ` set triggeredItems)"
    if "(\<forall>expiry. w_ExpiresAt item = Some expiry \<longrightarrow> (\<forall>n. \<not> expiry < clk n))
            \<and> GetPrimaryDataSource dm = Inr (Some ds)
            \<and> ds_GetRealTimeQuote ds (w_Symbol item) = Inr quote"
       "w_IsBuyList item \<and> \<not> 0 < w_TargetPrice item"
    using quoted[OF that(1)] that(2) by simp
  have sell: "(?fired \<longleftrightarrow> ((0 < w_StopLoss item \<and> q_LastPrice quote \<le> w_StopLoss item)
                     \<or> (0 < w_TakeProfit item \<and> w_TakeProfit item \<le> q_LastPrice quote))) \<and> (\<not> ((0 < w_StopLoss item \<and> q_LastPrice quote \<le> w_StopLoss item)
                     \<or> (0 < w_TakeProfit item \<and> w_TakeProfit item \<le> q_LastPrice quote)) \<longrightarrow> (fmlookup (items w') id' = Some item \<and> id' \<notin> w_ID ` set triggeredItems))"
    if "(\<forall>expiry. w_ExpiresAt item = Some expiry \<longrightarrow> (\<forall>n. \<not> expiry < clk n))
            \<and> GetPrimaryDataSource dm = Inr (Some ds)
            \<and> ds_GetRealTimeQuote ds (w_Symbol item) = Inr quote"
       "\<not> w_IsBuyList item"
    using quoted[OF that(1)] that(2) by simp
  show ?thesis
    using expired buy buy0 sell unquoted returned by blast
qed


theorem ScanWatchlist_triggers_witness:
  "(\<exists>stored. fmlookup (items (snd scan_at_100)) ''w1'' = Some stored
       \<and> w_Status stored = WatchStatusTriggered
       \<and> w_TriggeredAt stored \<noteq> None
       \<and> stored \<in> set (projr (fst scan_at_100)))
   \<and> fmlookup (items (snd scan_above_100)) ''w1'' = Some buy_item
   \<and> ''w1'' \<notin> w_ID ` set (projr (fst scan_above_100))
   \<and> fmlookup (items (snd scan_above_100)) ''w3'' = Some sell_item
   \<and> ''w3'' \<notin> w_ID ` set (projr (fst scan_above_100))
   \<and> (\<exists>stored. fmlookup (items (snd scan_at_100)) ''w2'' = Some stored
       \<and> w_Status stored = WatchStatusExpired)
   \<and> ''w2'' \<notin> w_ID ` set (projr (fst scan_at_100))
   \<and> fst scan_above_100 = Inr []
   \<and> map_sum id (map w_ID) (fst scan_at_100) = Inr [''w1'']"
proof -
  let ?ks = "[''w1'', ''w2'', ''w3'']"
  have s100: "ScanWatchlist (clock_from 1000) (manager_of (steady_source ''polygon'' 100))
                ?ks sample_watchlist = (Inr (projr (fst scan_at_100)), snd scan_at_100)"
    using scan_at_100_result by (cases scan_at_100) (simp add: scan_at_100_def)
  have s101: "ScanWatchlist (clock_from 1000) (manager_of (steady_source ''polygon'' 100.01))
                ?ks sample_watchlist = (Inr (projr (fst scan_above_100)), snd scan_above_100)"
    using scan_above_100_result by (cases scan_above_100) (simp add: scan_above_100_def)
  have w1: "''w1'' \<in> set ?ks" "fmlookup (items sample_watchlist) ''w1'' = Some buy_item"
    "w_Status buy_item = WatchStatusActive"
    and w2: "''w2'' \<in> set ?ks" "fmlookup (items sample_watchlist) ''w2'' = Some stale_item"
    "w_Status stale_item = WatchStatusActive"
    and w3: "''w3'' \<in> set ?ks" "fmlookup (items sample_watchlist) ''w3'' = Some sell_item"
    "w_Status sell_item = WatchStatusActive"
    by (simp_all add: watch_eval)
  have buy: "w_IsBuyList buy_item \<and> 0 < w_TargetPrice buy_item" "w_TargetPrice buy_item = 100"
    "\<forall>expiry. w_ExpiresAt buy_item = Some expiry \<longrightarrow> (\<forall>n. \<not> expiry < clock_from 1000 n)"
    "w_Symbol buy_item = ''AAPL''"
    by (simp_all add: watch_eval)
  have sell: "\<not> w_IsBuyList sell_item" "w_StopLoss sell_item = 90" "w_TakeProfit sell_item = 120"
    "\<forall>expiry. w_ExpiresAt sell_item = Some expiry \<longrightarrow> (\<forall>n. \<not> expiry < clock_from 1000 n)"
    "w_Symbol sell_item = ''AAPL''"
    by (simp_all add: watch_eval)
  have stale: "\<exists>expiry. w_ExpiresAt stale_item = Some expiry \<and> (\<forall>n. expiry < clock_from 1000 n)"
    by (simp add: watch_eval clock_from_def)
  have src: "\<And>p. GetPrimaryDataSource (manager_of (steady_source ''polygon'' p))
               = Inr (Some (steady_source ''polygon'' p))"
    "\<And>p. ds_GetRealTimeQuote (steady_source ''polygon'' p) ''AAPL'' = Inr (quote_at ''AAPL'' p)"
    by (simp_all add: GetPrimaryDataSource_def manager_of_def steady_source_def)
  note t100 = ScanWatchlist_triggers[OF sample_watchlist_keyed w1 s100,
                of "steady_source ''polygon'' 100" "quote_at ''AAPL'' 100"]
  note t101 = ScanWatchlist_triggers[OF sample_watchlist_keyed w1 s101,
                of "steady_source ''polygon'' 100.01" "quote_at ''AAPL'' 100.01"]
  note u101 = ScanWatchlist_triggers[OF sample_watchlist_keyed w3 s101,
                of "steady_source ''polygon'' 100.01" "quote_at ''AAPL'' 100.01"]
  note e100 = ScanWatchlist_triggers[OF sample_watchlist_keyed w2 s100,
                of "steady_source ''polygon'' 100" "quote_at ''AAPL'' 100"]
  have a: "\<exists>stored. fmlookup (items (snd scan_at_100)) ''w1'' = Some stored
       \<and> w_Status stored = WatchStatusTriggered
       \<and> w_TriggeredAt stored \<noteq> None
       \<and> stored \<in> set (projr (fst scan_at_100))"
    using t100[THEN conjunct2, THEN conjunct1] buy src by (simp add: quote_at_def)
  have b: "fmlookup (items (snd scan_above_100)) ''w1'' = Some buy_item
             \<and> ''w1'' \<notin> w_ID ` set (projr (fst scan_above_100))"
    using t101[THEN conjunct2, THEN conjunct1] buy src by (simp add: quote_at_def)
  have b3: "fmlookup (items (snd scan_above_100)) ''w3'' = Some sell_item
             \<and> ''w3'' \<notin> w_ID ` set (projr (fst scan_above_100))"
    using u101[THEN conjunct2, THEN conjunct1] sell src by (simp add: quote_at_def)
  have c: "(\<exists>stored. fmlookup (items (snd scan_at_100)) ''w2'' = Some stored
       \<and> w_Status stored = WatchStatusExpired)
   \<and> ''w2'' \<notin> w_ID ` set (projr (fst scan_at_100))"
    using e100[THEN conjunct1] stale by blast
  show ?thesis using a b b3 c scan_above_100_none scan_at_100_one by blast
qed


section \<open>Failover in \<open>GetStockData\<close> (C5)\<close>

text \<open>
  Claim C5. \<open>GetStockData\<close> of the manager returns the data of the primary source when
  that source is registered, enabled and answers. Otherwise the enabled sources other
  than the primary are tried in the order of the range: the data of the first one that
  answers is returned, whatever failed before it; when there is at least one and all of
  them fail, the error is the aggregate error that carries the error of the last one;
  when there is none, the error is that no source is available. The aggregate error is
  returned only when no source has answered, and it carries the last failure. In
  particular, with two registered enabled sources, a primary that fails and a second one
  that answers, the result is the data of the second one, in whichever order the range
  visits them.
\<close>

theorem GetStockData_failover:
  "((\<exists>pds. fmlookup (dataSources m) (primary m) = Some pds \<and> ds_IsEnabled pds
        \<and> ds_GetStockData pds symbol timeframe from to = Inr data)
      \<longrightarrow> GetStockData ks m symbol timeframe from to = Inr data)
   \<and> (\<not> (\<exists>pds bars. fmlookup (dataSources m) (primary m) = Some pds \<and> ds_IsEnabled pds
        \<and> ds_GetStockData pds symbol timeframe from to = Inr bars)
      \<longrightarrow> (\<forall>pre ds post.
             fallback_sources ks m = pre @ ds # post
             \<and> (\<forall>d \<in> set pre. isl (ds_GetStockData d symbol timeframe from to))
             \<and> ds_GetStockData ds symbol timeframe from to = Inr data
             \<longrightarrow> GetStockData ks m symbol timeframe from to = Inr data)
        \<and> (fallback_sources ks m \<noteq> []
             \<and> (\<forall>d \<in> set (fallback_sources ks m). isl (ds_GetStockData d symbol timeframe from to))
             \<longrightarrow> GetStockData ks m symbol timeframe from to
                   = Inl (ErrAllFailed (projl (ds_GetStockData (last (fallback_sources ks m))
                                                 symbol timeframe from to))))
        \<and> (fallback_sources ks m = []
             \<longrightarrow> GetStockData ks m symbol timeframe from to = Inl ErrNoSources))
   \<and> (\<forall>err. GetStockData ks m symbol timeframe from to = Inl (ErrAllFailed err)
      \<longrightarrow> \<not> (\<exists>pds bars. fmlookup (dataSources m) (primary m) = Some pds \<and> ds_IsEnabled pds
              \<and> ds_GetStockData pds symbol timeframe from to = Inr bars)
          \<and> (\<forall>d \<in> set (fallback_sources ks m). isl (ds_GetStockData d symbol timeframe from to))
          \<and> fallback_sources ks m \<noteq> []
          \<and> err = projl (ds_GetStockData (last (fallback_sources ks m))
                                                 symbol timeframe from to))
   \<and> (\<forall>p s P S. dataSources m = fmupd s S (fmupd p P fmempty) \<and> primary m = p \<and> p \<noteq> s
          \<and> set ks = {p, s} \<and> ds_IsEnabled P \<and> ds_IsEnabled S
          \<and> isl (ds_GetStockData P symbol timeframe from to)
          \<and> ds_GetStockData S symbol timeframe from to = Inr data
      \<longrightarrow> GetStockData ks m symbol timeframe from to = Inr data)"
proof -
  let ?fetch = "\<lambda>ds. ds_GetStockData ds symbol timeframe from to"
  let ?G = "GetStockData ks m symbol timeframe from to"
  let ?ok = "\<exists>pds bars. fmlookup (dataSources m) (primary m) = Some pds \<and> ds_IsEnabled pds
        \<and> ?fetch pds = Inr bars"
  have prim: "?G = Inr data"
    if "\<exists>pds. fmlookup (dataSources m) (primary m) = Some pds \<and> ds_IsEnabled pds
        \<and> ?fetch pds = Inr data"
    using that by (auto simp: GetStockData_def Let_def)
  have prim_iff: "?ok \<longleftrightarrow> (\<exists>bars. ?G = Inr bars \<and>
      (\<exists>pds. fmlookup (dataSources m) (primary m) = Some pds \<and> ds_IsEnabled pds
        \<and> ?fetch pds = Inr bars))"
    by (auto simp: GetStockData_def Let_def)
  have others: "?G = first_success (map ?fetch (fallback_sources ks m)) None" if "\<not> ?ok"
  proof -
    have "?G = try_others (dataSources m) (primary m) symbol timeframe from to ks None"
      using that
      by (auto simp: GetStockData_def Let_def split: option.splits sum.splits)
    then show ?thesis by (simp add: try_others_first_success)
  qed
  have found: "?G = Inr data"
    if "\<not> ?ok" "fallback_sources ks m = pre @ ds # post"
      "\<forall>d \<in> set pre. isl (?fetch d)" "?fetch ds = Inr data" for pre ds post
    using others[OF that(1)] that(2-4) first_success_found[of "map ?fetch pre" data "map ?fetch post" None]
    by simp
  have none: "?G = Inl (ErrAllFailed (projl (?fetch (last (fallback_sources ks m)))))"
    if "\<not> ?ok" "fallback_sources ks m \<noteq> []" "\<forall>d \<in> set (fallback_sources ks m). isl (?fetch d)"
    using others[OF that(1)] that(2,3)
      first_success_none[of "map ?fetch (fallback_sources ks m)" None]
    by (simp add: last_map)
  have empty: "?G = Inl ErrNoSources" if "\<not> ?ok" "fallback_sources ks m = []"
    using others[OF that(1)] that(2) by simp
  have only: "\<not> ?ok \<and> (\<forall>d \<in> set (fallback_sources ks m). isl (?fetch d))
               \<and> fallback_sources ks m \<noteq> []
               \<and> err = projl (?fetch (last (fallback_sources ks m)))"
    if e: "?G = Inl (ErrAllFailed err)" for err
  proof -
    have nok: "\<not> ?ok" using prim_iff e by auto
    from others[OF nok] e have "first_success (map ?fetch (fallback_sources ks m)) None
                                  = Inl (ErrAllFailed err)" by simp
    from first_success_all_failed[OF this]
    have all: "\<forall>d \<in> set (fallback_sources ks m). isl (?fetch d)" by auto
    have ne: "fallback_sources ks m \<noteq> []"
      using empty[OF nok] e by auto
    from none[OF nok ne all] e have "err = projl (?fetch (last (fallback_sources ks m)))" by simp
    with nok all ne show ?thesis by blast
  qed
  have two: "?G = Inr data"
    if t: "dataSources m = fmupd s S (fmupd p P fmempty)" "primary m = p" "p \<noteq> s"
          "set ks = {p, s}" "ds_IsEnabled P" "ds_IsEnabled S"
          "isl (?fetch P)" "?fetch S = Inr data" for p s P S
  proof -
    have nok: "\<not> ?ok" using t(1,2,3,7) by (auto simp: isl_def)
    obtain x xs where f: "filter (\<lambda>name. name \<noteq> primary m) ks = x # xs"
      using t(2,3,4) by (cases "filter (\<lambda>name. name \<noteq> primary m) ks") (auto simp: filter_empty_conv)
    then have "x \<in> set (filter (\<lambda>name. name \<noteq> primary m) ks)" by simp
    then have "x = s" using t(2,4) by auto
    then have "fallback_sources ks m
                 = [] @ S # filter ds_IsEnabled (List.map_filter (fmlookup (dataSources m)) xs)"
      using f t(1,3,6) by (simp add: fallback_sources_def)
    from found[OF nok this _ t(8)] show ?thesis by simp
  qed
  show ?thesis
    using prim found none empty only two by blast
qed


theorem GetStockData_failover_witness:
  "GetStockData [''backup'', ''polygon''] two_source_manager ''AAPL'' ''1d'' 0 86400 = Inr [sample_bar]
   \<and> GetStockData [''polygon'', ''backup''] two_source_manager ''AAPL'' ''1d'' 0 86400 = Inr [sample_bar]
   \<and> GetStockData [''polygon''] (manager_of (failing_source ''polygon'')) ''AAPL'' ''1d'' 0 86400
       = Inl ErrNoSources"
proof -
  have m: "dataSources two_source_manager
             = fmupd ''backup'' backup_source (fmupd ''polygon'' (failing_source ''polygon'') fmempty)
           \<and> primary two_source_manager = ''polygon'' \<and> ''polygon'' \<noteq> ''backup''"
    by (simp add: two_source_manager_def)
  have src: "ds_IsEnabled (failing_source ''polygon'') \<and> ds_IsEnabled backup_source
           \<and> isl (ds_GetStockData (failing_source ''polygon'') ''AAPL'' ''1d'' 0 86400)
           \<and> ds_GetStockData backup_source ''AAPL'' ''1d'' 0 86400 = Inr [sample_bar]"
    by (simp add: failing_source_def backup_source_def)
  have k1: "set [''backup'', ''polygon''] = {''polygon'', ''backup''}"
    and k2: "set [''polygon'', ''backup''] = {''polygon'', ''backup''}" by auto
  have a: "GetStockData [''backup'', ''polygon''] two_source_manager ''AAPL'' ''1d'' 0 86400
             = Inr [sample_bar]"
    using GetStockData_failover[of two_source_manager "''AAPL''" "''1d''" 0 86400 "[sample_bar]"
            "[''backup'', ''polygon'']", THEN conjunct2, THEN conjunct2, THEN conjunct2,
            rule_format, of "''backup''" backup_source "''polygon''" "failing_source ''polygon''"]
      m src k1 by blast
  have b: "GetStockData [''polygon'', ''backup''] two_source_manager ''AAPL'' ''1d'' 0 86400
             = Inr [sample_bar]"
    using GetStockData_failover[of two_source_manager "''AAPL''" "''1d''" 0 86400 "[sample_bar]"
            "[''polygon'', ''backup'']", THEN conjunct2, THEN conjunct2, THEN conjunct2,
            rule_format, of "''backup''" backup_source "''polygon''" "failing_source ''polygon''"]
      m src k2 by blast
  have nok: "\<not> (\<exists>pds bars. fmlookup (dataSources (manager_of (failing_source ''polygon'')))
                    (primary (manager_of (failing_source ''polygon''))) = Some pds
                 \<and> ds_IsEnabled pds \<and> ds_GetStockData pds ''AAPL'' ''1d'' 0 86400 = Inr bars)"
    by (simp add: manager_of_def failing_source_def)
  have none: "fallback_sources [''polygon''] (manager_of (failing_source ''polygon'')) = []"
    by (simp add: fallback_sources_def manager_of_def failing_source_def)
  have c: "GetStockData [''polygon''] (manager_of (failing_source ''polygon'')) ''AAPL'' ''1d'' 0 86400
             = Inl ErrNoSources"
    using GetStockData_failover[of "manager_of (failing_source ''polygon'')" "''AAPL''" "''1d''"
            0 86400 "[]" "[''polygon'']", THEN conjunct2, THEN conjunct1] nok none by blast
  show ?thesis using a b c by blast
qed


section \<open>Saturation of the RSI (C8)\<close>

text \<open>
  Claim C8. For an RSI made by \<open>NewRSI\<close> and a series of bars whose closing prices
  increase strictly and whose length exceeds the period, \<open>Calculate\<close> succeeds, its
  \<open>rsi\<close> series is as long as the input, the last value of the series is exactly 100,
  and the series at the indices below the period are 0.
\<close>

theorem RSI_rising_saturates:
  assumes made: "NewRSI params = Inr r"
    and rising: "sorted_wrt (<) (map sd_Close data)"
    and enough: "sint (period r) < int (length data)"
  shows "\<exists>result series. RSI_Calculate rfc3339 r data = Inr result
           \<and> fmlookup (ir_Values result) ''rsi'' = Some series
           \<and> length series = length data
           \<and> last series = 100
           \<and> (\<forall>i < nat (sint (period r)). series ! i = 0)"
proof -
  let ?p = "nat (sint (period r))"
  let ?prices = "map sd_Close data"
  let ?changes = "changes_of ?prices"
  have pos: "0 < sint (period r)"
    using made by (auto simp: NewRSI_def Let_def split: if_splits)
  have t1: "\<not> int (length data) < sint (period r + 1)"
    using sint_succ_le[of "period r"] enough by linarith
  have t2: "\<not> (sint (period r) < 0 \<or> int (length data) < sint (period r) + 1)"
    using pos enough by linarith
  have t3: "sint (period r) \<noteq> 0" using pos by simp
  have p: "0 < ?p" "?p < length data" using pos enough by simp_all
  have gains: "\<forall>c \<in> set ?changes. 0 < c"
    using rising by (rule changes_of_rising)
  have head: "\<forall>c \<in> set (take ?p ?changes). 0 < c"
    using gains by (meson in_set_takeD)
  have tail: "\<forall>c \<in> set (drop ?p ?changes). 0 < c"
    using gains by (meson in_set_dropD)
  obtain sumGain sumLoss where sums: "sum_changes (take ?p ?changes) 0 0 = (sumGain, sumLoss)"
    by (cases "sum_changes (take ?p ?changes) 0 0")
  have loss: "sumLoss = 0"
    using sum_changes_gains[OF head, of 0 0] sums by simp
  let ?seed = "(replicate (length ?prices) (0::real))[?p := 100]"
  let ?series = "smooth_loop ?p (?p + 1) (drop ?p ?changes) (sumGain / real ?p) 0 ?seed"
  have calc: "RSI_Calculate rfc3339 r data
                = Inr \<lparr> ir_Name = IndicatorTypeRSI,
                        ir_Values = fmupd ''rsi'' ?series fmempty,
                        ir_Dates = map (\<lambda>bar. rfc3339 (sd_Timestamp bar)) data \<rparr>"
    using t1 t2 t3 by (simp add: RSI_Calculate_def Let_def sums loss rsi_of_def)
  have fits: "(?p + 1) + length (drop ?p ?changes) \<le> length ?seed"
    using p by (simp add: length_changes_of)
  have nth: "?series ! j = (if ?p + 1 \<le> j \<and> j < ?p + 1 + length (drop ?p ?changes)
                            then 100 else ?seed ! j)" for j
    by (rule smooth_loop_gains[OF tail fits])
  have len: "length ?series = length data"
    by (simp add: length_smooth_loop)
  have ne: "?series \<noteq> []" using len p by auto
  have "last ?series = ?series ! (length data - 1)"
    using last_conv_nth[OF ne] len by simp
  also have "\<dots> = 100"
    unfolding nth using p by (auto simp: length_changes_of nth_list_update)
  finally have last: "last ?series = 100" .
  have zeros: "\<forall>i < ?p. ?series ! i = 0"
    unfolding nth using p by (auto simp: nth_list_update)
  show ?thesis
    using calc len last zeros by simp
qed

theorem RSI_rising_saturates_witness:
  "\<exists>result series. RSI_Calculate Sprintf_d rsi2 rising_bars = Inr result
     \<and> fmlookup (ir_Values result) ''rsi'' = Some series
     \<and> length series = 4
     \<and> last series = 100
     \<and> (\<forall>i < 2. series ! i = 0)"
proof -
  have rising: "sorted_wrt (<) (map sd_Close rising_bars)"
    by (simp add: rising_bars_def bar_at_def)
  have enough: "sint (period rsi2) < int (length rising_bars)"
    by (simp add: rsi2_def rising_bars_def)
  have n: "length rising_bars = 4" "nat (sint (period rsi2)) = 2"
    by (simp_all add: rising_bars_def rsi2_def)
  show ?thesis
    using RSI_rising_saturates[OF rsi2_made rising enough, of Sprintf_d]
    by (simp add: n)
qed


end
